theory Spec2Isabelle
  imports Complex_Main "HOL-Library.Stream" "HOL-Library.Signed_Division"
begin

section \<open>Numbers, random numbers and vectors\<close>

text \<open>
  The path tracer \<^verbatim>\<open>simplept.cpp\<close> computes on C++ \<^verbatim>\<open>double\<close>. The geometry and the
  radiance estimator are modelled on \<^typ>\<open>real\<close>: every arithmetic operation is the exact
  one, there is no rounding, no infinity and no NaN. A quotient with denominator zero has
  HOL's value (\<open>a / 0 = 0\<close>) and not IEEE's; the theorems below that speak about a quotient
  either keep the shape the source has or assume the denominator is not zero.

  The pixel buffer, \<^verbatim>\<open>clamp\<close> and \<^verbatim>\<open>toInt\<close> are modelled on a type of doubles that has
  the infinities and NaN, because what is written to the image depends on what they do
  there.

  The macro \<^verbatim>\<open>PI\<close> is the decimal constant of the source, not the number \<open>\<pi>\<close>.
\<close>

definition PI :: real where
  "PI = 3.1415926535897932384626433832795"

text \<open>
  \<^verbatim>\<open>rng()\<close> draws the next variate of the calling thread's engine. One call of the
  estimator runs on one thread, so the engine is a stream of variates that is passed along:
  a draw returns the head and leaves the tail.
\<close>

type_synonym RNG = "real stream"

definition rng :: "RNG \<Rightarrow> real \<times> RNG" where
  "rng g = (shd g, stl g)"

text \<open>\<^verbatim>\<open>struct Vec\<close>; \<^verbatim>\<open>Vec()\<close> is \<open>Vec 0 0 0\<close>, \<^verbatim>\<open>Vec(1)\<close> is \<open>Vec 1 0 0\<close>,
  \<^verbatim>\<open>Vec(0, 1)\<close> is \<open>Vec 0 1 0\<close>.\<close>

datatype Vec = Vec (vx: real) (vy: real) (vz: real)

definition Vec_plus :: "Vec \<Rightarrow> Vec \<Rightarrow> Vec" where
  "Vec_plus a b = Vec (vx a + vx b) (vy a + vy b) (vz a + vz b)"

definition Vec_minus :: "Vec \<Rightarrow> Vec \<Rightarrow> Vec" where
  "Vec_minus a b = Vec (vx a - vx b) (vy a - vy b) (vz a - vz b)"

definition Vec_times :: "Vec \<Rightarrow> real \<Rightarrow> Vec" where
  "Vec_times a b = Vec (vx a * b) (vy a * b) (vz a * b)"

definition Vec_eq :: "Vec \<Rightarrow> Vec \<Rightarrow> bool" where
  "Vec_eq a b = (if vx a = vx b \<and> vy a = vy b \<and> vz a = vz b then True else False)"

definition mult :: "Vec \<Rightarrow> Vec \<Rightarrow> Vec" where
  "mult a b = Vec (vx a * vx b) (vy a * vy b) (vz a * vz b)"

definition normalizeV :: "Vec \<Rightarrow> Vec" where
  "normalizeV a = Vec_times a (1 / sqrt (vx a * vx a + vy a * vy a + vz a * vz a))"

definition dot :: "Vec \<Rightarrow> Vec \<Rightarrow> real" where
  "dot a b = vx a * vx b + vy a * vy b + vz a * vz b"

definition cross :: "Vec \<Rightarrow> Vec \<Rightarrow> Vec" where
  "cross a b = Vec (vy a * vz b - vz a * vy b) (vz a * vx b - vx a * vz b)
                   (vx a * vy b - vy a * vx b)"

datatype Ray = Ray (ro: Vec) (rd: Vec)

section \<open>Utility functions\<close>

text \<open>
  A \<^verbatim>\<open>double\<close> as the encoder of the image meets it: a finite number, one of the two
  infinities, or NaN. Finite arithmetic is exact (no rounding, no overflow), and the two
  zeros are not told apart.
\<close>

datatype double = Finite real | PInf | NInf | NaN

text \<open>The comparison \<^verbatim>\<open>a < b\<close> of doubles: every comparison with NaN is false.\<close>

fun double_less :: "double \<Rightarrow> double \<Rightarrow> bool" where
  "double_less NaN b = False"
| "double_less a NaN = False"
| "double_less (Finite a) (Finite b) = (a < b)"
| "double_less (Finite a) PInf = True"
| "double_less NInf (Finite b) = True"
| "double_less NInf PInf = True"
| "double_less a b = False"

text \<open>The sum of doubles: NaN spreads, and the two infinities added give NaN.\<close>

fun double_plus :: "double \<Rightarrow> double \<Rightarrow> double" where
  "double_plus NaN b = NaN"
| "double_plus a NaN = NaN"
| "double_plus (Finite a) (Finite b) = Finite (a + b)"
| "double_plus PInf NInf = NaN"
| "double_plus NInf PInf = NaN"
| "double_plus PInf b = PInf"
| "double_plus a PInf = PInf"
| "double_plus NInf b = NInf"
| "double_plus a NInf = NInf"

text \<open>The product of doubles: NaN spreads, an infinity times zero is NaN, and otherwise an
  infinity takes the sign of the product.\<close>

fun double_times :: "double \<Rightarrow> double \<Rightarrow> double" where
  "double_times NaN b = NaN"
| "double_times a NaN = NaN"
| "double_times (Finite a) (Finite b) = Finite (a * b)"
| "double_times PInf (Finite b) = (if b = 0 then NaN else if 0 < b then PInf else NInf)"
| "double_times NInf (Finite b) = (if b = 0 then NaN else if 0 < b then NInf else PInf)"
| "double_times (Finite a) PInf = (if a = 0 then NaN else if 0 < a then PInf else NInf)"
| "double_times (Finite a) NInf = (if a = 0 then NaN else if 0 < a then NInf else PInf)"
| "double_times PInf PInf = PInf"
| "double_times NInf NInf = PInf"
| "double_times PInf NInf = NInf"
| "double_times NInf PInf = NInf"

text \<open>
  \<^verbatim>\<open>std::pow(x, 1.0/2.2)\<close>, the one power the source takes. The exponent is positive and
  not an integer: a negative base gives NaN, zero gives zero, both infinities give the
  positive infinity, NaN gives NaN, and a positive base is \<open>powr\<close> (with \<open>0 powr y = 0\<close>).
\<close>

fun pow_gamma :: "double \<Rightarrow> double" where
  "pow_gamma NaN = NaN"
| "pow_gamma PInf = PInf"
| "pow_gamma NInf = PInf"
| "pow_gamma (Finite a) = (if a < 0 then NaN else Finite (a powr (1 / 2.2)))"

definition clamp :: "double \<Rightarrow> double" where
  "clamp x =
     (if double_less x (Finite 0) then Finite 0
      else if double_less (Finite 1) x then Finite 1 else x)"

text \<open>
  \<^verbatim>\<open>static_cast<int>\<close> of a \<^verbatim>\<open>double\<close> drops the fractional part (rounds toward zero)
  when the result fits a 32-bit \<^verbatim>\<open>int\<close>. For NaN, the infinities and the values that do
  not fit, C++ leaves the cast undefined; the conversion instruction of the x86 target
  delivers \<open>- (2 ^ 31)\<close> for all of them, and that is what the model returns.
\<close>

fun static_cast_int :: "double \<Rightarrow> int" where
  "static_cast_int (Finite v) =
     (let t = (if 0 \<le> v then \<lfloor>v\<rfloor> else \<lceil>v\<rceil>)
      in if - (2 ^ 31) \<le> t \<and> t < 2 ^ 31 then t else - (2 ^ 31))"
| "static_cast_int x = - (2 ^ 31)"

definition toInt :: "double \<Rightarrow> int" where
  "toInt x =
     static_cast_int (double_plus (double_times (pow_gamma (clamp x)) (Finite 255)) (Finite 0.5))"

text \<open>A \<^verbatim>\<open>Vec\<close> of the pixel buffer: its components are doubles.\<close>

datatype DVec = DVec (dx: double) (dy: double) (dz: double)

definition DVec_plus :: "DVec \<Rightarrow> DVec \<Rightarrow> DVec" where
  "DVec_plus a b =
     DVec (double_plus (dx a) (dx b)) (double_plus (dy a) (dy b)) (double_plus (dz a) (dz b))"

definition DVec_times :: "DVec \<Rightarrow> double \<Rightarrow> DVec" where
  "DVec_times a b = DVec (double_times (dx a) b) (double_times (dy a) b) (double_times (dz a) b)"

section \<open>BRDFs\<close>

text \<open>The two subclasses of \<^verbatim>\<open>BRDF\<close>, each with its colour \<^verbatim>\<open>kd\<close> or \<^verbatim>\<open>ks\<close>.\<close>

datatype BRDF = DiffuseBRDF Vec | SpecularBRDF Vec

text \<open>\<^verbatim>\<open>createLocalCoord\<close> returns its three reference parameters \<open>(u, v, w)\<close>.\<close>

definition createLocalCoord :: "Vec \<Rightarrow> Vec \<times> Vec \<times> Vec" where
  "createLocalCoord n =
     (let w = n;
          u = normalizeV (cross (if \<bar>vx w\<bar> > 0.1 then Vec 0 1 0 else Vec 1 0 0) w);
          v = cross w u
      in (u, v, w))"

definition mirroredDirection :: "Vec \<Rightarrow> Vec \<Rightarrow> Vec" where
  "mirroredDirection n out = Vec_minus (Vec_times (Vec_times n (dot n out)) 2) out"

text \<open>\<^verbatim>\<open>eval(n, o, i)\<close>, by the dynamic type of the BRDF.\<close>

fun eval :: "BRDF \<Rightarrow> Vec \<Rightarrow> Vec \<Rightarrow> Vec \<Rightarrow> Vec" where
  "eval (DiffuseBRDF kd) n out i = Vec_times kd (1 / PI)"
| "eval (SpecularBRDF ks) n out i =
     (if Vec_eq i (mirroredDirection n out) then Vec_times ks (1 / dot n i)
      else Vec 0 0 0)"

text \<open>\<^verbatim>\<open>sample(n, o, i, pdf)\<close> returns its reference parameters \<open>(i, pdf)\<close> and the
  engine after its draws. The diffuse sampler draws twice, the specular one never.\<close>

fun sample :: "BRDF \<Rightarrow> Vec \<Rightarrow> Vec \<Rightarrow> RNG \<Rightarrow> (Vec \<times> real) \<times> RNG" where
  "sample (DiffuseBRDF kd) n out g =
     (let (u1, g1) = rng g;
          z = sqrt u1;
          r = sqrt (1 - z * z);
          (u2, g2) = rng g1;
          phi = 2 * PI * u2;
          x = r * cos phi;
          y = r * sin phi;
          (u, v, w) = createLocalCoord n;
          i = normalizeV (Vec_plus (Vec_plus (Vec_times u x) (Vec_times v y)) (Vec_times w z));
          pdf = dot n i / PI
      in ((i, pdf), g2))"
| "sample (SpecularBRDF ks) n out g = ((mirroredDirection n out, 1), g)"

section \<open>Shapes and the scene\<close>

text \<open>\<^verbatim>\<open>struct Sphere\<close>: radius, position \<^verbatim>\<open>p\<close>, emitted radiance \<^verbatim>\<open>e\<close>, BRDF.\<close>

datatype Sphere = Sphere (rad: real) (pos: Vec) (emit: Vec) (brdf: BRDF)

definition Sphere_intersect :: "Sphere \<Rightarrow> Ray \<Rightarrow> real" where
  "Sphere_intersect s r =
     (let op = Vec_minus (pos s) (ro r);
          eps = 1 / 10 ^ 4;
          b = dot op (rd r);
          det = b * b - dot op op + rad s * rad s
      in if det < 0 then 0
         else let det = sqrt det
              in if b - det > eps then b - det
                 else if b + det > eps then b + det else 0)"

definition leftWall :: BRDF where "leftWall = DiffuseBRDF (Vec 0.75 0.25 0.25)"
definition rightWall :: BRDF where "rightWall = DiffuseBRDF (Vec 0.25 0.25 0.75)"
definition otherWall :: BRDF where "otherWall = DiffuseBRDF (Vec 0.75 0.75 0.75)"
definition blackSurf :: BRDF where "blackSurf = DiffuseBRDF (Vec 0 0 0)"
definition brightSurf :: BRDF where "brightSurf = DiffuseBRDF (Vec 0.9 0.9 0.9)"
definition brightSurf_s :: BRDF where "brightSurf_s = SpecularBRDF (Vec 0.999 0.999 0.999)"

definition spheres :: "Sphere list" where
  "spheres =
     [Sphere (10 ^ 5) (Vec (10 ^ 5 + 1) 40.8 81.6) (Vec 0 0 0) leftWall,
      Sphere (10 ^ 5) (Vec (- (10 ^ 5) + 99) 40.8 81.6) (Vec 0 0 0) rightWall,
      Sphere (10 ^ 5) (Vec 50 40.8 (10 ^ 5)) (Vec 0 0 0) otherWall,
      Sphere (10 ^ 5) (Vec 50 (10 ^ 5) 81.6) (Vec 0 0 0) otherWall,
      Sphere (10 ^ 5) (Vec 50 (- (10 ^ 5) + 81.6) 81.6) (Vec 0 0 0) otherWall,
      Sphere 16.5 (Vec 27 16.5 47) (Vec 0 0 0) brightSurf,
      Sphere 16.5 (Vec 73 16.5 78) (Vec 0 0 0) brightSurf_s,
      Sphere 5 (Vec 50 70 81.6) (Vec 50 50 50) blackSurf]"

text \<open>
  One turn of the loop of \<^verbatim>\<open>intersect\<close> at index \<open>i\<close>, on the pair \<open>(t, id)\<close> of its
  reference parameters: a distance \<open>d\<close> counts when it is not zero and below \<open>t\<close>.
\<close>

definition intersect_step :: "Ray \<Rightarrow> nat \<Rightarrow> real \<times> int \<Rightarrow> real \<times> int" where
  "intersect_step r i acc =
     (let d = Sphere_intersect (spheres ! i) r
      in if d \<noteq> 0 \<and> d < fst acc then (d, int i) else acc)"

text \<open>
  \<^verbatim>\<open>intersect(r, t, id)\<close>: the loop runs \<open>i\<close> from the last sphere down to \<open>0\<close>. The
  result is the returned flag with the final \<open>t\<close> and \<open>id\<close>; \<open>id0\<close> is what the caller's
  \<open>id\<close> held before the call (it is kept when nothing is hit).
\<close>

definition intersect :: "Ray \<Rightarrow> int \<Rightarrow> bool \<times> real \<times> int" where
  "intersect r id0 =
     (let inf = 10 ^ 20;
          (t, sid) = fold (intersect_step r) (rev [0..<length spheres]) (inf, id0)
      in (t < inf, t, sid))"

section \<open>The radiance estimator\<close>

definition emittedRadiance :: "Sphere \<Rightarrow> Vec" where
  "emittedRadiance obj = emit obj"

text \<open>\<^verbatim>\<open>luminaireSample(obj, p, n, pdf)\<close> returns \<open>(p, n, pdf)\<close> and the engine after its
  two draws.\<close>

definition luminaireSample :: "Sphere \<Rightarrow> RNG \<Rightarrow> (Vec \<times> Vec \<times> real) \<times> RNG" where
  "luminaireSample obj g =
     (let (sigma1, g1) = rng g;
          (sigma2, g2) = rng g1;
          z = 2 * sigma1 - 1;
          x = sqrt (1 - z * z) * cos (2 * PI * sigma2);
          y = sqrt (1 - z * z) * sin (2 * PI * sigma2);
          n = Vec x y z;
          p = Vec_plus (pos obj) (Vec_times n (rad obj));
          pdf = 1 / (4 * PI * rad obj * rad obj)
      in ((p, n, pdf), g2))"

text \<open>
  \<^verbatim>\<open>directedRadiance\<close>. The local \<^verbatim>\<open>id\<close> handed to \<^verbatim>\<open>intersect\<close> is not initialised
  and never read afterwards; the model hands over \<open>0\<close>. The flag returned by
  \<^verbatim>\<open>intersect\<close> is dropped, as in the source: after a miss \<open>t\<close> is \<open>10 ^ 20\<close>.
\<close>

definition directedRadiance :: "Vec \<Rightarrow> Vec \<Rightarrow> Sphere \<Rightarrow> bool \<Rightarrow> RNG \<Rightarrow> Vec \<times> RNG" where
  "directedRadiance x out obj flag g =
     (let n = normalizeV (Vec_minus x (pos obj));
          n = (if dot n out < 0 then Vec_times n (- 1) else n);
          obj_l = spheres ! 7;
          ((x_l, n_l, pdf_l), g1) = luminaireSample obj_l g;
          i = normalizeV (Vec_minus x_l x);
          disXtoXl = dot (Vec_minus x_l x) (Vec_minus x_l x);
          (hit, t, sid) = intersect (Ray x i) 0;
          x_hit = Vec_plus x (Vec_times i t)
      in if dot (Vec_minus x_hit x_l) (Vec_minus x_hit x_l) < 0.0001
         then (Vec_times
                 (Vec_times
                    (Vec_times (mult (emittedRadiance obj_l) (eval (brdf obj) n out i))
                       (dot n i))
                    (dot n_l (Vec_minus (Vec 0 0 0) i)))
                 (1 / (disXtoXl * pdf_l)), g1)
         else (Vec 0 0 0, g1))"

text \<open>
  The three mutually recursive functions. Nothing bounds the recursion of the source (the
  roulette stops it only when a variate above \<open>0.9\<close> is drawn), so the model counts the
  nested calls of \<^verbatim>\<open>receivedRadiance\<close> with fuel: \<open>None\<close> says the fuel ran out before
  the call returned. Each function returns its colour with the engine it leaves behind.

  In \<^verbatim>\<open>reflectedRadiance\<close> the two operands of \<^verbatim>\<open>+\<close> both draw variates, and C++ does
  not fix which operand is evaluated first; \<open>lr\<close> says that the left one (the direct term)
  is.
\<close>

fun receivedRadiance :: "nat \<Rightarrow> bool \<Rightarrow> Ray \<Rightarrow> int \<Rightarrow> bool \<Rightarrow> RNG \<Rightarrow> (Vec \<times> RNG) option"
  and reflectedRadiance ::
    "nat \<Rightarrow> bool \<Rightarrow> Vec \<Rightarrow> Vec \<Rightarrow> Sphere \<Rightarrow> int \<Rightarrow> bool \<Rightarrow> RNG \<Rightarrow> (Vec \<times> RNG) option"
  and indirectedRadiance ::
    "nat \<Rightarrow> bool \<Rightarrow> Vec \<Rightarrow> Vec \<Rightarrow> Sphere \<Rightarrow> int \<Rightarrow> bool \<Rightarrow> RNG \<Rightarrow> (Vec \<times> RNG) option"
where
  "receivedRadiance 0 lr r depth flag g = None"
| "receivedRadiance (Suc k) lr r depth flag g =
     (case intersect r 0 of
        (hit, t, sid) \<Rightarrow>
          if \<not> hit then Some (Vec 0 0 0, g)
          else
            let obj = spheres ! nat sid;
                x = Vec_plus (ro r) (Vec_times (rd r) t);
                out = normalizeV (Vec_minus (Vec 0 0 0) (rd r))
            in (case reflectedRadiance k lr x out obj depth flag g of
                  None \<Rightarrow> None
                | Some (L, g') \<Rightarrow> Some (Vec_plus (emittedRadiance obj) L, g')))"
| "reflectedRadiance k lr x out obj depth flag g =
     (if lr then
        (case directedRadiance x out obj flag g of
           (Ld, g1) \<Rightarrow>
             (case indirectedRadiance k lr x out obj depth flag g1 of
                None \<Rightarrow> None
              | Some (Li, g2) \<Rightarrow> Some (Vec_plus Ld Li, g2)))
      else
        (case indirectedRadiance k lr x out obj depth flag g of
           None \<Rightarrow> None
         | Some (Li, g1) \<Rightarrow>
             (case directedRadiance x out obj flag g1 of
                (Ld, g2) \<Rightarrow> Some (Vec_plus Ld Li, g2))))"
| "indirectedRadiance k lr x out obj depth flag g =
     (let p = (if depth \<le> 5 then 1 else 0.9);
          (u, g1) = rng g
      in if u > p then Some (Vec 0 0 0, g1)
         else
           let n = normalizeV (Vec_minus x (pos obj));
               n = (if dot n out < 0 then Vec_times n (- 1) else n);
               ((i, pdf), g2) = sample (brdf obj) n out g1
           in (case receivedRadiance k lr (Ray x i) (depth + 1) flag g2 of
                 None \<Rightarrow> None
               | Some (L, g3) \<Rightarrow>
                   Some (Vec_times
                           (Vec_times (mult L (eval (brdf obj) n out i)) (dot n i))
                           (1 / (pdf * p)), g3)))"

section \<open>The driver\<close>

definition cam :: Ray where
  "cam = Ray (Vec 50 52 295.6) (normalizeV (Vec 0 (- 0.042612) (- 1)))"

text \<open>
  \<^verbatim>\<open>atoi(s)\<close> is the C library's, which is \<^verbatim>\<open>(int) strtol(s, NULL, 10)\<close>. \<^verbatim>\<open>strtol\<close>
  skips white space, reads an optional sign and then decimal digits up to the first
  character that is not one, and is \<open>0\<close> when there is no digit; its result is a 64-bit
  \<^verbatim>\<open>long\<close>, held at the largest or smallest \<^verbatim>\<open>long\<close> when the number does not fit.
  The cast to \<^verbatim>\<open>int\<close> keeps the low 32 bits, read in two's complement.
\<close>

definition isspace :: "char \<Rightarrow> bool" where
  "isspace c = (c \<in> {CHR 0x20, CHR 0x09, CHR 0x0A, CHR 0x0B, CHR 0x0C, CHR 0x0D})"

definition isdigit :: "char \<Rightarrow> bool" where
  "isdigit c = (48 \<le> (of_char c :: nat) \<and> (of_char c :: nat) \<le> 57)"

fun atoi_digits :: "int \<Rightarrow> string \<Rightarrow> int" where
  "atoi_digits acc [] = acc"
| "atoi_digits acc (c # cs) =
     (if isdigit c then atoi_digits (acc * 10 + (of_char c - 48)) cs else acc)"

definition strtol :: "string \<Rightarrow> int" where
  "strtol s =
     (let v = (case dropWhile isspace s of
                 [] \<Rightarrow> 0
               | c # cs \<Rightarrow>
                   if c = CHR ''-'' then - atoi_digits 0 cs
                   else if c = CHR ''+'' then atoi_digits 0 cs
                   else atoi_digits 0 (c # cs))
      in if v < - (2 ^ 63) then - (2 ^ 63) else if 2 ^ 63 - 1 < v then 2 ^ 63 - 1 else v)"

definition int_of_long :: "int \<Rightarrow> int" where
  "int_of_long v = (v + 2 ^ 31) mod 2 ^ 32 - 2 ^ 31"

definition atoi :: "string \<Rightarrow> int" where
  "atoi s = int_of_long (strtol s)"

text \<open>
  The initialiser of \<^verbatim>\<open>samps\<close> in \<^verbatim>\<open>main\<close>: \<open>argv\<close> is the argument vector with the
  program's name first, so \<^verbatim>\<open>argc\<close> is its length. The division of C's \<^verbatim>\<open>int\<close>
  rounds toward zero; the quotient of a 32-bit \<^verbatim>\<open>int\<close> by \<open>4\<close> is a 32-bit \<^verbatim>\<open>int\<close>.
\<close>

definition main_samps :: "string list \<Rightarrow> int" where
  "main_samps argv = (if length argv = 2 then atoi (argv ! 1) sdiv 4 else 1)"

text \<open>A counting \<^verbatim>\<open>for\<close> loop whose body may not return: the body is run at each index in
  turn on the state the loop carries.\<close>

fun for_each :: "nat list \<Rightarrow> (nat \<Rightarrow> 's \<Rightarrow> 's option) \<Rightarrow> 's \<Rightarrow> 's option" where
  "for_each [] body s = Some s"
| "for_each (i # is) body s =
     (case body i s of None \<Rightarrow> None | Some s' \<Rightarrow> for_each is body s')"

text \<open>The body of the loop over \<open>s\<close>: one camera ray through subpixel \<open>(sx, sy)\<close> of pixel
  \<open>(x, y)\<close>, its radiance added to \<open>r\<close>.\<close>

definition camera_sample ::
  "nat \<Rightarrow> bool \<Rightarrow> nat \<Rightarrow> nat \<Rightarrow> int \<Rightarrow> Vec \<Rightarrow> Vec \<Rightarrow> nat \<Rightarrow> nat \<Rightarrow> nat \<Rightarrow> nat
     \<Rightarrow> Vec \<times> RNG \<Rightarrow> (Vec \<times> RNG) option" where
  "camera_sample k lr w h samps cx cy x y sx sy acc =
     (case acc of
        (r, g) \<Rightarrow>
          let (v1, g1) = rng g;
              r1 = 2 * v1;
              dx = (if r1 < 1 then sqrt r1 - 1 else 1 - sqrt (2 - r1));
              (v2, g2) = rng g1;
              r2 = 2 * v2;
              dy = (if r2 < 1 then sqrt r2 - 1 else 1 - sqrt (2 - r2));
              d = Vec_plus
                    (Vec_plus
                       (Vec_times cx (((real sx + 0.5 + dx) / 2 + real x) / real w - 0.5))
                       (Vec_times cy (((real sy + 0.5 + dy) / 2 + real y) / real h - 0.5)))
                    (rd cam)
          in (case receivedRadiance k lr (Ray (ro cam) (normalizeV d)) 1 True g2 of
                None \<Rightarrow> None
              | Some (L, g3) \<Rightarrow>
                  Some (Vec_plus r (Vec_times L (1 / real_of_int samps)), g3)))"

text \<open>The body of the loop over \<open>sx\<close>: \<open>samps\<close> camera samples from \<open>r = Vec()\<close>, then
  the clamped quarter added to \<open>c[i]\<close>. The loop over \<open>s\<close> runs \<open>samps\<close> times, and not at
  all when \<open>samps\<close> is not positive. The sum \<open>r\<close> comes from the estimator on the reals
  and enters the buffer as finite doubles.\<close>

definition subpixel ::
  "nat \<Rightarrow> bool \<Rightarrow> nat \<Rightarrow> nat \<Rightarrow> int \<Rightarrow> Vec \<Rightarrow> Vec \<Rightarrow> nat \<Rightarrow> nat \<Rightarrow> nat \<Rightarrow> nat
     \<Rightarrow> DVec list \<times> RNG \<Rightarrow> (DVec list \<times> RNG) option" where
  "subpixel k lr w h samps cx cy x y sy sx st =
     (case st of
        (c, g) \<Rightarrow>
          let i = (h - y - 1) * w + x
          in (case for_each [0..<nat samps]
                     (\<lambda>s. camera_sample k lr w h samps cx cy x y sx sy) (Vec 0 0 0, g) of
                None \<Rightarrow> None
              | Some (r, g') \<Rightarrow>
                  Some (c[i := DVec_plus (c ! i)
                                (DVec_times
                                   (DVec (clamp (Finite (vx r))) (clamp (Finite (vy r)))
                                      (clamp (Finite (vz r))))
                                   (Finite 0.25))], g')))"

text \<open>
  The four outer loops of \<^verbatim>\<open>main\<close>. The source hands the rows to the workers of OpenMP,
  each with an engine of its own; the model renders the rows in order on one engine, which
  is the program run with one worker.
\<close>

definition render ::
  "nat \<Rightarrow> bool \<Rightarrow> nat \<Rightarrow> nat \<Rightarrow> int \<Rightarrow> Vec \<Rightarrow> Vec \<Rightarrow> DVec list \<times> RNG
     \<Rightarrow> (DVec list \<times> RNG) option" where
  "render k lr w h samps cx cy =
     for_each [0..<h] (\<lambda>y.
       for_each [0..<w] (\<lambda>x.
         for_each [0..<2] (\<lambda>sy.
           for_each [0..<2] (\<lambda>sx.
             subpixel k lr w h samps cx cy x y sy sx))))"

text \<open>\<^verbatim>\<open>%d\<close> of \<^verbatim>\<open>fprintf\<close>.\<close>

function show_nat :: "nat \<Rightarrow> string" where
  "show_nat n =
     (if n < 10 then [''0123456789'' ! n]
      else show_nat (n div 10) @ [''0123456789'' ! (n mod 10)])"
  by pat_completeness auto
termination
  by (relation "measure (\<lambda>n. n)") auto

definition show_int :: "int \<Rightarrow> string" where
  "show_int i = (if i < 0 then CHR ''-'' # show_nat (nat (- i)) else show_nat (nat i))"

text \<open>What the last lines of \<^verbatim>\<open>main\<close> write to \<^verbatim>\<open>image.ppm\<close>: the header, then the three
  channels of every pixel, each through \<^verbatim>\<open>toInt\<close> and followed by a blank.\<close>

definition ppm_header :: "nat \<Rightarrow> nat \<Rightarrow> string" where
  "ppm_header w h =
     ''P3'' @ [CHR 0x0A] @ show_int (int w) @ '' '' @ show_int (int h) @ [CHR 0x0A]
       @ show_int 255 @ [CHR 0x0A]"

definition ppm_pixel :: "DVec \<Rightarrow> string" where
  "ppm_pixel v =
     show_int (toInt (dx v)) @ '' '' @ show_int (toInt (dy v)) @ '' ''
       @ show_int (toInt (dz v)) @ '' ''"

definition ppm_text :: "nat \<Rightarrow> nat \<Rightarrow> DVec list \<Rightarrow> string" where
  "ppm_text w h c = ppm_header w h @ concat (map (\<lambda>i. ppm_pixel (c ! i)) [0..<w * h])"

text \<open>
  \<^verbatim>\<open>main\<close>: the exit status and the text of \<^verbatim>\<open>image.ppm\<close>, or \<open>None\<close> when the fuel
  of some call of the estimator ran out. The progress line on \<^verbatim>\<open>stderr\<close> is left out, and
  the file is taken to open.
\<close>

definition main :: "nat \<Rightarrow> bool \<Rightarrow> string list \<Rightarrow> RNG \<Rightarrow> (int \<times> string) option" where
  "main k lr argv g =
     (let w = 480;
          h = 360;
          samps = main_samps argv;
          cx = Vec (real w * 0.5135 / real h) 0 0;
          cy = Vec_times (normalizeV (cross cx (rd cam))) 0.5135
      in case render k lr w h samps cx cy
                (replicate (w * h) (DVec (Finite 0) (Finite 0) (Finite 0)), g) of
           None \<Rightarrow> None
         | Some (c, g') \<Rightarrow> Some (0, ppm_text w h c))"

section \<open>The quadratic of the sphere test\<close>

text \<open>
  The equation named by the specification and by the comment in \<^verbatim>\<open>Sphere::intersect\<close>,
  as a function of \<open>t\<close>: \<open>t\<^sup>2 (d \<cdot> d) + 2 t (o - p) \<cdot> d + (o - p) \<cdot> (o - p) - R\<^sup>2\<close>. It is
  written from those words, to be compared with what \<^const>\<open>Sphere_intersect\<close> returns.
\<close>

definition sphere_quadratic :: "Sphere \<Rightarrow> Ray \<Rightarrow> real \<Rightarrow> real" where
  "sphere_quadratic s r t =
     t\<^sup>2 * dot (rd r) (rd r) + 2 * t * dot (Vec_minus (ro r) (pos s)) (rd r)
       + dot (Vec_minus (ro r) (pos s)) (Vec_minus (ro r) (pos s)) - (rad s)\<^sup>2"

section \<open>Evaluating the scene on two concrete rays\<close>

text \<open>
  Facts about the intersection routine that the examples below share. A sphere whose centre
  lies behind the origin of a ray that starts outside it is not hit. For a ray that starts
  inside a sphere, the distance returned is at least any \<open>T\<close> at which the quadratic of
  the sphere is not positive.
\<close>

lemmas vec_defs = dot_def Vec_minus_def Vec_plus_def Vec_times_def mult_def cross_def

lemma Sphere_intersect_behind:
  assumes c: "(rad s)\<^sup>2 \<le> dot (Vec_minus (pos s) (ro r)) (Vec_minus (pos s) (ro r))"
    and b: "dot (Vec_minus (pos s) (ro r)) (rd r) \<le> 0"
  shows "Sphere_intersect s r = 0"
proof -
  define b where "b = dot (Vec_minus (pos s) (ro r)) (rd r)"
  define det where "det = b * b - dot (Vec_minus (pos s) (ro r)) (Vec_minus (pos s) (ro r)) + rad s * rad s"
  have bn: "b \<le> 0" using b by (simp add: b_def)
  have "det \<le> b * b" using c by (simp add: det_def power2_eq_square)
  then have "sqrt det \<le> sqrt (b * b)" by (rule real_sqrt_le_mono)
  then have "sqrt det \<le> \<bar>b\<bar>" by (simp only: real_sqrt_abs2)
  then have "sqrt det \<le> - b" using bn by simp
  then have hi: "b + sqrt det \<le> 0" by simp
  have lo: "b - sqrt det \<le> 0" if "0 \<le> det"
    using that bn real_sqrt_ge_zero [of det] by linarith
  show ?thesis
  proof (cases "det < 0")
    case True
    then show ?thesis
      unfolding Sphere_intersect_def Let_def b_def [symmetric] det_def [symmetric] by simp
  next
    case False
    then have "0 \<le> det" by simp
    from lo [OF this] hi False show ?thesis
      unfolding Sphere_intersect_def Let_def b_def [symmetric] det_def [symmetric] by simp
  qed
qed

lemma Sphere_intersect_inside:
  assumes c: "dot (Vec_minus (pos s) (ro r)) (Vec_minus (pos s) (ro r)) \<le> (rad s)\<^sup>2"
    and T: "0 \<le> T"
    and q: "T\<^sup>2 - 2 * dot (Vec_minus (pos s) (ro r)) (rd r) * T
              + dot (Vec_minus (pos s) (ro r)) (Vec_minus (pos s) (ro r)) - (rad s)\<^sup>2 \<le> 0"
  shows "Sphere_intersect s r = 0 \<or> T \<le> Sphere_intersect s r"
proof -
  define b where "b = dot (Vec_minus (pos s) (ro r)) (rd r)"
  define det where "det = b * b - dot (Vec_minus (pos s) (ro r)) (Vec_minus (pos s) (ro r)) + rad s * rad s"
  have d0: "b * b \<le> det" using c by (simp add: det_def power2_eq_square)
  then have dn: "0 \<le> det" by (meson order_trans zero_le_square)
  have "sqrt (b * b) \<le> sqrt det" using d0 by (rule real_sqrt_le_mono)
  then have "\<bar>b\<bar> \<le> sqrt det" by (simp only: real_sqrt_abs2)
  then have lo: "b - sqrt det \<le> 0" by simp
  have "(T - b)\<^sup>2 \<le> det" using q by (simp add: det_def b_def power2_eq_square algebra_simps)
  then have "sqrt ((T - b)\<^sup>2) \<le> sqrt det" by (rule real_sqrt_le_mono)
  then have "\<bar>T - b\<bar> \<le> sqrt det" by (simp only: real_sqrt_abs)
  then have "T - b \<le> sqrt det" by simp
  then have hi: "T \<le> b + sqrt det" by simp
  show ?thesis
    unfolding Sphere_intersect_def Let_def b_def [symmetric] det_def [symmetric]
    using lo hi dn by auto
qed

lemma intersect_step_keep:
  "Sphere_intersect (spheres ! i) r = 0 \<or> fst acc \<le> Sphere_intersect (spheres ! i) r
    \<Longrightarrow> intersect_step r i acc = acc"
  by (auto simp: intersect_step_def Let_def)

lemma rev_upt_8: "rev [0..<length spheres] = [7, 6, 5, 4, 3, 2, 1, 0]"
  by (simp add: spheres_def upt_rec)

lemma sphere_nth:
  "spheres ! 0 = Sphere (10 ^ 5) (Vec (10 ^ 5 + 1) 40.8 81.6) (Vec 0 0 0) leftWall"
  "spheres ! 1 = Sphere (10 ^ 5) (Vec (- (10 ^ 5) + 99) 40.8 81.6) (Vec 0 0 0) rightWall"
  "spheres ! 2 = Sphere (10 ^ 5) (Vec 50 40.8 (10 ^ 5)) (Vec 0 0 0) otherWall"
  "spheres ! 3 = Sphere (10 ^ 5) (Vec 50 (10 ^ 5) 81.6) (Vec 0 0 0) otherWall"
  "spheres ! 4 = Sphere (10 ^ 5) (Vec 50 (- (10 ^ 5) + 81.6) 81.6) (Vec 0 0 0) otherWall"
  "spheres ! 5 = Sphere 16.5 (Vec 27 16.5 47) (Vec 0 0 0) brightSurf"
  "spheres ! 6 = Sphere 16.5 (Vec 73 16.5 78) (Vec 0 0 0) brightSurf_s"
  "spheres ! 7 = Sphere 5 (Vec 50 70 81.6) (Vec 50 50 50) blackSurf"
  by (simp_all add: spheres_def)

text \<open>
  A ray far behind the camera that looks away from the scene misses every sphere.
\<close>

lemma far_ray_behind:
  "Sphere_intersect (spheres ! 7) (Ray (Vec 50 52 1000000) (Vec 0 0 1)) = 0"
  "Sphere_intersect (spheres ! 6) (Ray (Vec 50 52 1000000) (Vec 0 0 1)) = 0"
  "Sphere_intersect (spheres ! 5) (Ray (Vec 50 52 1000000) (Vec 0 0 1)) = 0"
  "Sphere_intersect (spheres ! 4) (Ray (Vec 50 52 1000000) (Vec 0 0 1)) = 0"
  "Sphere_intersect (spheres ! 3) (Ray (Vec 50 52 1000000) (Vec 0 0 1)) = 0"
  "Sphere_intersect (spheres ! 2) (Ray (Vec 50 52 1000000) (Vec 0 0 1)) = 0"
  "Sphere_intersect (spheres ! 1) (Ray (Vec 50 52 1000000) (Vec 0 0 1)) = 0"
  "Sphere_intersect (spheres ! 0) (Ray (Vec 50 52 1000000) (Vec 0 0 1)) = 0"
  by (simp_all add: sphere_nth Sphere_intersect_behind vec_defs power2_eq_square
      del: One_nat_def)

lemma intersect_far_miss:
  "intersect (Ray (Vec 50 52 1000000) (Vec 0 0 1)) 0 = (False, 10 ^ 20, 0)"
  by (simp add: intersect_def rev_upt_8 intersect_step_def far_ray_behind Let_def
      del: One_nat_def)

text \<open>
  The point \<open>(62, 22, 67)\<close> lies on the mirror ball (sphere 6), where the unit normal
  is \<open>(-2/3, 1/3, -2/3)\<close>. From there the point \<open>(50, 70, 76.6)\<close> of the light is at
  distance \<open>50.4\<close> in the direction \<open>(-5/21, 20/21, 4/21)\<close>, and nothing is in between.
\<close>

lemma sqrt_400_441: "sqrt (400 / 441) = 20 / 21"
  by (rule real_sqrt_unique) (simp_all add: power2_eq_square)

lemma sqrt_1089_4: "sqrt (1089 / 4) = 33 / 2"
  by (rule real_sqrt_unique) (simp_all add: power2_eq_square)

lemma sqrt_63504_25: "sqrt (63504 / 25) = 252 / 5"
  by (rule real_sqrt_unique) (simp_all add: power2_eq_square)

lemma light_ray_7:
  "Sphere_intersect (spheres ! 7) (Ray (Vec 62 22 67) (Vec (- (5 / 21)) (20 / 21) (4 / 21))) = 252 / 5"
  by (simp add: sphere_nth Sphere_intersect_def vec_defs Let_def sqrt_400_441)

lemma light_ray_walls:
  "Sphere_intersect (spheres ! 4) (Ray (Vec 62 22 67) (Vec (- (5 / 21)) (20 / 21) (4 / 21))) = 0
     \<or> 252 / 5 \<le> Sphere_intersect (spheres ! 4) (Ray (Vec 62 22 67) (Vec (- (5 / 21)) (20 / 21) (4 / 21)))"
  "Sphere_intersect (spheres ! 3) (Ray (Vec 62 22 67) (Vec (- (5 / 21)) (20 / 21) (4 / 21))) = 0
     \<or> 252 / 5 \<le> Sphere_intersect (spheres ! 3) (Ray (Vec 62 22 67) (Vec (- (5 / 21)) (20 / 21) (4 / 21)))"
  "Sphere_intersect (spheres ! 2) (Ray (Vec 62 22 67) (Vec (- (5 / 21)) (20 / 21) (4 / 21))) = 0
     \<or> 252 / 5 \<le> Sphere_intersect (spheres ! 2) (Ray (Vec 62 22 67) (Vec (- (5 / 21)) (20 / 21) (4 / 21)))"
  "Sphere_intersect (spheres ! 1) (Ray (Vec 62 22 67) (Vec (- (5 / 21)) (20 / 21) (4 / 21))) = 0
     \<or> 252 / 5 \<le> Sphere_intersect (spheres ! 1) (Ray (Vec 62 22 67) (Vec (- (5 / 21)) (20 / 21) (4 / 21)))"
  "Sphere_intersect (spheres ! 0) (Ray (Vec 62 22 67) (Vec (- (5 / 21)) (20 / 21) (4 / 21))) = 0
     \<or> 252 / 5 \<le> Sphere_intersect (spheres ! 0) (Ray (Vec 62 22 67) (Vec (- (5 / 21)) (20 / 21) (4 / 21)))"
  by (rule Sphere_intersect_inside; simp add: sphere_nth vec_defs power2_eq_square del: One_nat_def)+

lemma light_ray_balls:
  "Sphere_intersect (spheres ! 6) (Ray (Vec 62 22 67) (Vec (- (5 / 21)) (20 / 21) (4 / 21))) = 0"
  "Sphere_intersect (spheres ! 5) (Ray (Vec 62 22 67) (Vec (- (5 / 21)) (20 / 21) (4 / 21))) = 0"
  by (rule Sphere_intersect_behind; simp add: sphere_nth vec_defs power2_eq_square)+

lemma intersect_light_ray:
  "intersect (Ray (Vec 62 22 67) (Vec (- (5 / 21)) (20 / 21) (4 / 21))) 0 = (True, 252 / 5, 7)"
proof -
  let ?r = "Ray (Vec 62 22 67) (Vec (- (5 / 21)) (20 / 21) (4 / 21))"
  have s: "intersect_step ?r 7 (100000000000000000000, 0) = (252 / 5, 7)"
    by (simp add: intersect_step_def light_ray_7)
  have b: "intersect_step ?r 6 (252 / 5, 7) = (252 / 5, 7)"
    "intersect_step ?r 5 (252 / 5, 7) = (252 / 5, 7)"
    by (simp_all add: intersect_step_def light_ray_balls)
  have w: "intersect_step ?r 4 (252 / 5, 7) = (252 / 5, 7)"
    "intersect_step ?r 3 (252 / 5, 7) = (252 / 5, 7)"
    "intersect_step ?r 2 (252 / 5, 7) = (252 / 5, 7)"
    "intersect_step ?r 1 (252 / 5, 7) = (252 / 5, 7)"
    "intersect_step ?r 0 (252 / 5, 7) = (252 / 5, 7)"
    by (rule intersect_step_keep, simp only: fst_conv, rule light_ray_walls)+
  show ?thesis
    by (simp add: intersect_def rev_upt_8 Let_def s b w del: One_nat_def)
qed

lemma ball2_normal:
  "normalizeV (Vec_minus (Vec 62 22 67) (pos (spheres ! 6))) = Vec (- (2 / 3)) (1 / 3) (- (2 / 3))"
  by (simp add: sphere_nth normalizeV_def vec_defs sqrt_1089_4)

lemma light_sample_zero:
  "luminaireSample (spheres ! 7) (sconst 0) = ((Vec 50 70 (383 / 5), Vec 0 0 (- 1), 1 / (100 * PI)), sconst 0)"
  by (simp add: luminaireSample_def rng_def sphere_nth vec_defs)

lemma to_light_dir:
  "normalizeV (Vec_minus (Vec 50 70 (383 / 5)) (Vec 62 22 67)) = Vec (- (5 / 21)) (20 / 21) (4 / 21)"
  by (simp add: normalizeV_def vec_defs sqrt_63504_25)

lemma hit_point_example:
  "Vec_plus (Vec 62 22 67) (Vec_times (Vec (- (5 / 21)) (20 / 21) (4 / 21)) (252 / 5)) = Vec 50 70 (383 / 5)"
  "normalizeV (Vec_minus (Vec 0 0 0) (Vec (- (5 / 21)) (20 / 21) (4 / 21))) = Vec (5 / 21) (- (20 / 21)) (- (4 / 21))"
  by (simp_all add: vec_defs normalizeV_def)

lemma directed_engine: "snd (directedRadiance x out obj flag g) = stl (stl g)"
  by (simp add: directedRadiance_def luminaireSample_def rng_def Let_def split_beta)

lemma reflected_light_example:
  "reflectedRadiance 0 True (Vec 50 70 (383 / 5)) (Vec (5 / 21) (- (20 / 21)) (- (4 / 21)))
      (spheres ! 7) 7 True (0.5 ## 0 ## sconst 1)
   = Some (Vec_plus
             (fst (directedRadiance (Vec 50 70 (383 / 5)) (Vec (5 / 21) (- (20 / 21)) (- (4 / 21)))
                (spheres ! 7) True (0.5 ## 0 ## sconst 1)))
             (Vec 0 0 0), sconst 1)"
  by (simp add: split_beta directed_engine rng_def)

lemma received_light_example:
  "receivedRadiance 1 True (Ray (Vec 62 22 67) (Vec (- (5 / 21)) (20 / 21) (4 / 21))) 7 True
      (0.5 ## 0 ## sconst 1)
   = Some (Vec_plus (Vec 50 50 50)
             (Vec_plus
                (fst (directedRadiance (Vec 50 70 (383 / 5)) (Vec (5 / 21) (- (20 / 21)) (- (4 / 21)))
                   (spheres ! 7) True (0.5 ## 0 ## sconst 1)))
                (Vec 0 0 0)), sconst 1)"
proof -
  have e: "emittedRadiance (spheres ! 7) = Vec 50 50 50"
    by (simp add: emittedRadiance_def sphere_nth)
  show ?thesis
    using reflected_light_example
    by (simp add: intersect_light_ray hit_point_example Let_def e del: reflectedRadiance.simps)
qed

section \<open>The indirect term\<close>

text \<open>
  C1. The indirect estimate survives with probability \<open>p = 1\<close> up to depth \<open>5\<close> and
  \<open>p = 0.9\<close> beyond. With \<open>u\<close> the variate it draws: when \<open>u > p\<close> it returns the zero
  colour; otherwise it is the estimate of \<^const>\<open>receivedRadiance\<close> along the ray from \<open>x\<close>
  in the sampled direction \<open>i\<close> at \<open>depth + 1\<close>, multiplied channel by channel with
  \<open>eval n out i\<close> times \<open>(n \<cdot> i) / (pdf * p)\<close>, where \<open>(i, pdf)\<close> is the sample of the
  BRDF of the sphere hit and \<open>n\<close> its normal at \<open>x\<close> turned toward \<open>out\<close>. It returns
  exactly when that recursive call does.
\<close>

theorem indirect_russian_roulette:
  "(let p = (if depth \<le> 5 then 1 else 0.9 :: real);
        u = shd g;
        n0 = normalizeV (Vec_minus x (pos obj));
        n = (if dot n0 out < 0 then Vec_times n0 (- 1) else n0);
        s = sample (brdf obj) n out (stl g);
        i = fst (fst s);
        pdf = snd (fst s)
    in (u > p \<longrightarrow> indirectedRadiance k lr x out obj depth flag g = Some (Vec 0 0 0, stl g))
     \<and> (\<not> u > p \<longrightarrow>
          indirectedRadiance k lr x out obj depth flag g =
            map_option
              (\<lambda>(L, g'). (mult L (Vec_times (eval (brdf obj) n out i) (dot n i / (pdf * p))), g'))
              (receivedRadiance k lr (Ray x i) (depth + 1) flag (snd s))))"
  by (simp add: Let_def rng_def split_beta mult_def Vec_times_def
      split: option.split)

text \<open>
  At depth \<open>6\<close> a variate \<open>1\<close> ends the path. With the variate \<open>0.5\<close> the path goes on:
  from the point on the mirror ball the bounce reaches the light, whose own indirect term is
  ended by the last variate.
\<close>

theorem indirect_russian_roulette_witness:
  "indirectedRadiance 0 True (Vec 62 22 67) (Vec (- (43 / 189)) (- (136 / 189)) (- (124 / 189)))
      (spheres ! 6) 6 True (sconst 1) = Some (Vec 0 0 0, sconst 1)
   \<and> indirectedRadiance 1 True (Vec 62 22 67) (Vec (- (43 / 189)) (- (136 / 189)) (- (124 / 189)))
      (spheres ! 6) 6 True (0.5 ## 0.5 ## 0 ## sconst 1)
     = Some (mult
               (Vec_plus (Vec 50 50 50)
                  (Vec_plus
                     (fst (directedRadiance (Vec 50 70 (383 / 5))
                        (Vec (5 / 21) (- (20 / 21)) (- (4 / 21))) (spheres ! 7) True
                        (0.5 ## 0 ## sconst 1)))
                     (Vec 0 0 0)))
               (Vec_times (Vec_times (Vec 0.999 0.999 0.999) (63 / 22)) (22 / 63 / (1 * 0.9))),
             sconst 1)"
proof -
  let ?x = "Vec 62 22 67"
  let ?out = "Vec (- (43 / 189)) (- (136 / 189)) (- (124 / 189))"
  have nf: "\<not> dot (Vec (- (2 / 3)) (1 / 3) (- (2 / 3))) ?out < 0"
    by (simp add: vec_defs)
  have sm: "sample (brdf (spheres ! 6)) (Vec (- (2 / 3)) (1 / 3) (- (2 / 3))) ?out g
      = ((Vec (- (5 / 21)) (20 / 21) (4 / 21), 1), g)" for g
    by (simp add: sphere_nth brightSurf_s_def mirroredDirection_def vec_defs)
  have ev: "eval brightSurf_s (Vec (- (2 / 3)) (1 / 3) (- (2 / 3))) ?out (Vec (- (5 / 21)) (20 / 21) (4 / 21))
     = Vec_times (Vec 0.999 0.999 0.999) (63 / 22)"
    by (simp add: brightSurf_s_def mirroredDirection_def Vec_eq_def vec_defs)
  have h1: "shd (sconst (1::real)) > 0.9" by simp
  have h2: "\<not> shd (0.5 ## 0.5 ## 0 ## sconst (1::real)) > 0.9" by simp
  note a = indirect_russian_roulette [of 6 "sconst 1" ?x "spheres ! 6" ?out 0 True True,
      unfolded Let_def ball2_normal nf if_False sm fst_conv snd_conv]
  note b = indirect_russian_roulette [of 6 "0.5 ## 0.5 ## 0 ## sconst 1" ?x "spheres ! 6" ?out 1 True True,
      unfolded Let_def ball2_normal nf if_False sm fst_conv snd_conv]
  from a h1 have 1: "indirectedRadiance 0 True ?x ?out (spheres ! 6) 6 True (sconst 1)
      = Some (Vec 0 0 0, sconst 1)"
    by (simp del: indirectedRadiance.simps)
  from b h2 nf have 2: "indirectedRadiance 1 True ?x ?out (spheres ! 6) 6 True (0.5 ## 0.5 ## 0 ## sconst 1)
      = map_option
          (\<lambda>(L, g'). (mult L (Vec_times (eval (brdf (spheres ! 6)) (Vec (- (2 / 3)) (1 / 3) (- (2 / 3)))
              ?out (Vec (- (5 / 21)) (20 / 21) (4 / 21)))
            (dot (Vec (- (2 / 3)) (1 / 3) (- (2 / 3))) (Vec (- (5 / 21)) (20 / 21) (4 / 21)) / (1 * 0.9))), g'))
          (receivedRadiance 1 True (Ray ?x (Vec (- (5 / 21)) (20 / 21) (4 / 21))) 7 True
             (0.5 ## 0 ## sconst 1))"
    by (simp add: sm del: indirectedRadiance.simps receivedRadiance.simps)
  show ?thesis
    unfolding 1 2 received_light_example
    by (simp add: sphere_nth ev vec_defs)
qed

section \<open>The direct term\<close>

text \<open>
  C2. The direct term samples a point \<open>x_l\<close> of the light (sphere 7), sends a shadow ray
  from \<open>x\<close> in the direction \<open>i\<close> of \<open>x_l\<close> and takes the point \<open>x_hit\<close> at the distance
  that \<^const>\<open>intersect\<close> returns for it (\<open>10 ^ 20\<close> after a miss). When the squared
  distance from \<open>x_hit\<close> to \<open>x_l\<close> is below \<open>1 / 10 ^ 4\<close> the result is
  \<open>Le * eval n out i * (n \<cdot> i) * (n_l \<cdot> (- i)) / (d2 * pdf_l)\<close>, with \<open>d2\<close> the squared
  distance from \<open>x\<close> to \<open>x_l\<close>; otherwise it is the zero colour.
\<close>

theorem direct_lighting:
  "(let n0 = normalizeV (Vec_minus x (pos obj));
        n = (if dot n0 out < 0 then Vec_times n0 (- 1) else n0);
        light = spheres ! 7;
        ls = luminaireSample light g;
        x_l = fst (fst ls);
        n_l = fst (snd (fst ls));
        pdf_l = snd (snd (fst ls));
        i = normalizeV (Vec_minus x_l x);
        d2 = dot (Vec_minus x_l x) (Vec_minus x_l x);
        t = fst (snd (intersect (Ray x i) 0));
        x_hit = Vec_plus x (Vec_times i t)
    in (dot (Vec_minus x_hit x_l) (Vec_minus x_hit x_l) < 1 / 10 ^ 4 \<longrightarrow>
          directedRadiance x out obj flag g =
            (mult (emit light)
               (Vec_times (eval (brdf obj) n out i)
                  (dot n i * dot n_l (Vec_minus (Vec 0 0 0) i) / (d2 * pdf_l))), snd ls))
     \<and> (\<not> dot (Vec_minus x_hit x_l) (Vec_minus x_hit x_l) < 1 / 10 ^ 4 \<longrightarrow>
          directedRadiance x out obj flag g = (Vec 0 0 0, snd ls)))"
  by (simp add: directedRadiance_def Let_def split_beta mult_def Vec_times_def
      emittedRadiance_def)

text \<open>
  From the point on the mirror ball, looking along the mirror image of the direction of the
  light, the sampled point of the light is seen and the direct term is not zero.
\<close>

theorem direct_lighting_witness:
  "directedRadiance (Vec 62 22 67) (Vec (- (43 / 189)) (- (136 / 189)) (- (124 / 189)))
      (spheres ! 6) True (sconst 0)
   = (mult (Vec 50 50 50)
        (Vec_times (Vec_times (Vec 0.999 0.999 0.999) (63 / 22))
           (22 / 63 * (4 / 21) / (63504 / 25 * (1 / (100 * PI))))), sconst 0)"
proof -
  let ?x = "Vec 62 22 67"
  let ?out = "Vec (- (43 / 189)) (- (136 / 189)) (- (124 / 189))"
  note th = direct_lighting [of ?x "spheres ! 6" ?out "sconst 0" True]
  have nf: "\<not> dot (Vec (- (2 / 3)) (1 / 3) (- (2 / 3))) ?out < 0"
    by (simp add: vec_defs)
  have ev: "eval brightSurf_s (Vec (- (2 / 3)) (1 / 3) (- (2 / 3))) ?out (Vec (- (5 / 21)) (20 / 21) (4 / 21))
     = Vec_times (Vec 0.999 0.999 0.999) (63 / 22)"
    by (simp add: brightSurf_s_def mirroredDirection_def Vec_eq_def vec_defs)
  note th1 = th [unfolded Let_def light_sample_zero fst_conv snd_conv ball2_normal nf if_False
      to_light_dir intersect_light_ray ev]
  have h: "dot (Vec_minus (Vec_plus ?x (Vec_times (Vec (- (5 / 21)) (20 / 21) (4 / 21)) (252 / 5)))
              (Vec 50 70 (383 / 5)))
            (Vec_minus (Vec_plus ?x (Vec_times (Vec (- (5 / 21)) (20 / 21) (4 / 21)) (252 / 5)))
              (Vec 50 70 (383 / 5))) < 1 / 10 ^ 4"
    by (simp add: vec_defs)
  from th1 h show ?thesis
    by (simp add: vec_defs sphere_nth ev)
qed

section \<open>The specular BRDF\<close>

text \<open>
  C4. The specular sampler returns the mirror direction \<open>2 (n \<cdot> out) n - out\<close> with
  density \<open>1\<close>. Its \<open>eval\<close> is \<open>ks\<close> scaled by \<open>1 / (n \<cdot> i)\<close> when the three components
  of \<open>i\<close> equal those of the mirror direction, and the zero colour for every other \<open>i\<close>.
\<close>

theorem specular_mirror:
  "sample (SpecularBRDF ks) n out g =
     ((Vec (2 * dot n out * vx n - vx out) (2 * dot n out * vy n - vy out)
           (2 * dot n out * vz n - vz out), 1), g)
   \<and> mirroredDirection n out =
       Vec (2 * dot n out * vx n - vx out) (2 * dot n out * vy n - vy out)
           (2 * dot n out * vz n - vz out)
   \<and> (vx i = vx (mirroredDirection n out) \<and> vy i = vy (mirroredDirection n out)
        \<and> vz i = vz (mirroredDirection n out)
      \<longrightarrow> eval (SpecularBRDF ks) n out i = Vec_times ks (1 / dot n i))
   \<and> (\<not> (vx i = vx (mirroredDirection n out) \<and> vy i = vy (mirroredDirection n out)
        \<and> vz i = vz (mirroredDirection n out))
      \<longrightarrow> eval (SpecularBRDF ks) n out i = Vec 0 0 0)"
  by (simp add: mirroredDirection_def Vec_minus_def Vec_times_def Vec_eq_def mult.commute mult.left_commute)

theorem specular_mirror_witness:
  "eval (SpecularBRDF (Vec 0.999 0.999 0.999)) (Vec 0 0 1) (Vec 0 0 1) (Vec 0 0 1)
     = Vec 0.999 0.999 0.999
   \<and> eval (SpecularBRDF (Vec 0.999 0.999 0.999)) (Vec 0 0 1) (Vec 0 0 1) (Vec 1 0 0) = Vec 0 0 0"
proof -
  have m: "mirroredDirection (Vec 0 0 1) (Vec 0 0 1) = Vec 0 0 1"
    by (simp add: mirroredDirection_def vec_defs)
  have a: "vx (Vec 0 0 1) = vx (mirroredDirection (Vec 0 0 1) (Vec 0 0 1))
      \<and> vy (Vec 0 0 1) = vy (mirroredDirection (Vec 0 0 1) (Vec 0 0 1))
      \<and> vz (Vec 0 0 1) = vz (mirroredDirection (Vec 0 0 1) (Vec 0 0 1))"
    by (simp add: m)
  have b: "\<not> (vx (Vec 1 0 0) = vx (mirroredDirection (Vec 0 0 1) (Vec 0 0 1))
      \<and> vy (Vec 1 0 0) = vy (mirroredDirection (Vec 0 0 1) (Vec 0 0 1))
      \<and> vz (Vec 1 0 0) = vz (mirroredDirection (Vec 0 0 1) (Vec 0 0 1)))"
    by (simp add: m)
  from specular_mirror [of "Vec 0.999 0.999 0.999" "Vec 0 0 1" "Vec 0 0 1" undefined "Vec 0 0 1"] a
  have 1: "eval (SpecularBRDF (Vec 0.999 0.999 0.999)) (Vec 0 0 1) (Vec 0 0 1) (Vec 0 0 1)
     = Vec_times (Vec 0.999 0.999 0.999) (1 / dot (Vec 0 0 1) (Vec 0 0 1))"
    by blast
  from specular_mirror [of "Vec 0.999 0.999 0.999" "Vec 0 0 1" "Vec 0 0 1" undefined "Vec 1 0 0"] b
  have 2: "eval (SpecularBRDF (Vec 0.999 0.999 0.999)) (Vec 0 0 1) (Vec 0 0 1) (Vec 1 0 0) = Vec 0 0 0"
    by blast
  show ?thesis
    unfolding 1 2 by (simp add: vec_defs)
qed

section \<open>The light sampler\<close>

text \<open>
  C5. With \<open>u1\<close> and \<open>u2\<close> the two variates drawn and \<open>z = 2 u1 - 1\<close>, the light sampler
  returns the normal \<open>n = (sqrt (1 - z\<^sup>2) cos (2 PI u2), sqrt (1 - z\<^sup>2) sin (2 PI u2), z)\<close>, the
  point \<open>p + n * rad\<close> and the density \<open>1 / (4 PI rad\<^sup>2)\<close>.
\<close>

theorem light_sampler:
  "luminaireSample obj g =
     (let u1 = shd g; u2 = shd (stl g); z = 2 * u1 - 1;
          n = Vec (sqrt (1 - z\<^sup>2) * cos (2 * PI * u2)) (sqrt (1 - z\<^sup>2) * sin (2 * PI * u2)) z
      in ((Vec_plus (pos obj) (Vec_times n (rad obj)), n, 1 / (4 * PI * (rad obj)\<^sup>2)),
          stl (stl g)))"
  by (simp add: luminaireSample_def rng_def Let_def power2_eq_square)

section \<open>The estimator on a miss and on a hit\<close>

text \<open>
  C6. When \<^const>\<open>intersect\<close> reports a miss, the estimator returns the zero colour (a
  value, with the engine untouched). When it reports a hit, the estimator is the emitted
  radiance of the sphere hit plus the reflected radiance at the hit point, and the reflected
  radiance is the direct term plus the indirect term, in either order of evaluation.
\<close>

theorem received_miss_or_hit:
  "(let hit = fst (intersect r 0);
        t = fst (snd (intersect r 0));
        obj = spheres ! nat (snd (snd (intersect r 0)));
        x = Vec_plus (ro r) (Vec_times (rd r) t);
        out = normalizeV (Vec_minus (Vec 0 0 0) (rd r))
    in (\<not> hit \<longrightarrow> receivedRadiance (Suc k) lr r depth flag g = Some (Vec 0 0 0, g))
     \<and> (hit \<longrightarrow>
          receivedRadiance (Suc k) lr r depth flag g =
            map_option (\<lambda>(L, g'). (Vec_plus (emit obj) L, g'))
              (reflectedRadiance k lr x out obj depth flag g)))
   \<and> reflectedRadiance k True x' out' obj' depth flag g =
       (let d = directedRadiance x' out' obj' flag g
        in map_option (\<lambda>(Li, g2). (Vec_plus (fst d) Li, g2))
             (indirectedRadiance k True x' out' obj' depth flag (snd d)))
   \<and> reflectedRadiance k False x' out' obj' depth flag g =
       (case indirectedRadiance k False x' out' obj' depth flag g of
          None \<Rightarrow> None
        | Some (Li, g1) \<Rightarrow>
            (let d = directedRadiance x' out' obj' flag g1
             in Some (Vec_plus (fst d) Li, snd d)))"
  by (simp add: Let_def split_beta emittedRadiance_def del: indirectedRadiance.simps
      split: option.split)

text \<open>
  The ray that looks away from the scene gives the zero colour. The ray from the mirror ball
  to the light gives the light's emission \<open>(50, 50, 50)\<close> plus its direct term, the indirect
  term being ended by the variate \<open>1\<close>.
\<close>

theorem received_miss_or_hit_witness:
  "receivedRadiance 1 True (Ray (Vec 50 52 1000000) (Vec 0 0 1)) 1 True (sconst 0)
     = Some (Vec 0 0 0, sconst 0)
   \<and> receivedRadiance 1 True (Ray (Vec 62 22 67) (Vec (- (5 / 21)) (20 / 21) (4 / 21))) 7 True
       (0.5 ## 0 ## sconst 1)
     = Some (Vec_plus (Vec 50 50 50)
               (Vec_plus
                  (fst (directedRadiance (Vec 50 70 (383 / 5))
                     (Vec (5 / 21) (- (20 / 21)) (- (4 / 21))) (spheres ! 7) True
                     (0.5 ## 0 ## sconst 1)))
                  (Vec 0 0 0)), sconst 1)"
proof -
  note a = received_miss_or_hit [of "Ray (Vec 50 52 1000000) (Vec 0 0 1)" 0 True 1 True "sconst 0",
      THEN conjunct1, unfolded Let_def intersect_far_miss fst_conv snd_conv]
  note b = received_miss_or_hit [of "Ray (Vec 62 22 67) (Vec (- (5 / 21)) (20 / 21) (4 / 21))" 0 True 7 True
      "0.5 ## 0 ## sconst 1",
      THEN conjunct1, unfolded Let_def intersect_light_ray fst_conv snd_conv Ray.sel hit_point_example]
  from a have 1: "receivedRadiance 1 True (Ray (Vec 50 52 1000000) (Vec 0 0 1)) 1 True (sconst 0)
     = Some (Vec 0 0 0, sconst 0)"
    by (simp del: receivedRadiance.simps)
  from b have 2: "receivedRadiance 1 True (Ray (Vec 62 22 67) (Vec (- (5 / 21)) (20 / 21) (4 / 21))) 7 True
       (0.5 ## 0 ## sconst 1)
     = map_option (\<lambda>(L, g'). (Vec_plus (emit (spheres ! 7)) L, g'))
         (reflectedRadiance 0 True (Vec 50 70 (383 / 5)) (Vec (5 / 21) (- (20 / 21)) (- (4 / 21)))
            (spheres ! 7) 7 True (0.5 ## 0 ## sconst 1))"
    by (simp del: receivedRadiance.simps reflectedRadiance.simps)
  show ?thesis
    unfolding 1 2 reflected_light_example
    by (simp add: sphere_nth)
qed

section \<open>The flag\<close>

text \<open>
  The flag passes through the four functions and is never looked at.
\<close>

lemma directed_flag: "directedRadiance x out obj f1 g = directedRadiance x out obj f2 g"
  by (simp add: directedRadiance_def)

lemma indirected_flag_step:
  assumes "\<And>r depth g. receivedRadiance k lr r depth f1 g = receivedRadiance k lr r depth f2 g"
  shows "indirectedRadiance k lr x out obj depth f1 g = indirectedRadiance k lr x out obj depth f2 g"
  unfolding indirectedRadiance.simps assms ..

lemma reflected_flag_step:
  assumes "\<And>r depth g. receivedRadiance k lr r depth f1 g = receivedRadiance k lr r depth f2 g"
  shows "reflectedRadiance k lr x out obj depth f1 g = reflectedRadiance k lr x out obj depth f2 g"
  unfolding reflectedRadiance.simps indirected_flag_step [OF assms, of _ _ _ _ _]
    directed_flag [of _ _ _ f1 _ f2] ..

lemma received_flag:
  "receivedRadiance k lr r depth f1 g = receivedRadiance k lr r depth f2 g"
proof (induction k arbitrary: r depth g)
  case 0
  show ?case by simp
next
  case (Suc k)
  show ?case
    unfolding receivedRadiance.simps reflected_flag_step [OF Suc, of _ _ _ _ _] ..
qed

text \<open>
  C9. On the same ray, depth and engine, the estimator called with \<open>true\<close> and with
  \<open>false\<close> gives the same result, and so do the three functions it is threaded through.
\<close>

theorem flag_never_read:
  "receivedRadiance k lr r depth True g = receivedRadiance k lr r depth False g
   \<and> reflectedRadiance k lr x out obj depth True g = reflectedRadiance k lr x out obj depth False g
   \<and> indirectedRadiance k lr x out obj depth True g = indirectedRadiance k lr x out obj depth False g
   \<and> directedRadiance x out obj True g = directedRadiance x out obj False g"
  using received_flag [of k lr _ _ True _ False]
  by (simp add: reflected_flag_step [of k lr True False] indirected_flag_step [of k lr True False]
      directed_flag [of x out obj True g False] del: receivedRadiance.simps reflectedRadiance.simps indirectedRadiance.simps)

section \<open>Intersection\<close>

text \<open>
  The sphere test returns \<open>0\<close> or a distance above \<open>1 / 10 ^ 4\<close>. For a direction of
  unit length the quadratic of the sphere is \<open>(t - b)\<^sup>2 - det\<close>, in the \<open>b\<close> and \<open>det\<close> of
  the source, so its roots are \<open>b - sqrt det\<close> and \<open>b + sqrt det\<close>.
\<close>

lemma Sphere_intersect_range:
  "Sphere_intersect s r = 0 \<or> 1 / 10 ^ 4 < Sphere_intersect s r"
  by (simp add: Sphere_intersect_def Let_def)

lemma sphere_quadratic_square:
  assumes "dot (rd r) (rd r) = 1"
  shows "sphere_quadratic s r t =
    (t - dot (Vec_minus (pos s) (ro r)) (rd r))\<^sup>2
      - (dot (Vec_minus (pos s) (ro r)) (rd r) * dot (Vec_minus (pos s) (ro r)) (rd r)
          - dot (Vec_minus (pos s) (ro r)) (Vec_minus (pos s) (ro r)) + rad s * rad s)"
proof -
  have a: "dot (Vec_minus (ro r) (pos s)) (rd r) = - dot (Vec_minus (pos s) (ro r)) (rd r)"
    by (simp add: dot_def Vec_minus_def algebra_simps)
  have b: "dot (Vec_minus (ro r) (pos s)) (Vec_minus (ro r) (pos s))
      = dot (Vec_minus (pos s) (ro r)) (Vec_minus (pos s) (ro r))"
    by (simp add: dot_def Vec_minus_def algebra_simps)
  show ?thesis
    unfolding sphere_quadratic_def a b assms
    by (simp add: power2_eq_square algebra_simps)
qed

lemma square_eq_sqrt:
  fixes a :: real
  assumes "0 \<le> D"
  shows "a\<^sup>2 - D = 0 \<longleftrightarrow> a = - sqrt D \<or> a = sqrt D"
proof -
  have "a\<^sup>2 - D = 0 \<longleftrightarrow> a\<^sup>2 = (sqrt D)\<^sup>2" using assms by simp
  also have "\<dots> \<longleftrightarrow> a = - sqrt D \<or> a = sqrt D"
    by (auto simp: power2_eq_iff)
  finally show ?thesis .
qed

lemma Sphere_intersect_roots:
  assumes u: "dot (rd r) (rd r) = 1"
  shows "((\<exists>t. 1 / 10 ^ 4 < t \<and> sphere_quadratic s r t = 0) \<longrightarrow>
            1 / 10 ^ 4 < Sphere_intersect s r
            \<and> sphere_quadratic s r (Sphere_intersect s r) = 0
            \<and> (\<forall>t. 1 / 10 ^ 4 < t \<and> sphere_quadratic s r t = 0 \<longrightarrow> Sphere_intersect s r \<le> t))
       \<and> (\<not> (\<exists>t. 1 / 10 ^ 4 < t \<and> sphere_quadratic s r t = 0) \<longrightarrow> Sphere_intersect s r = 0)"
proof -
  define b where "b = dot (Vec_minus (pos s) (ro r)) (rd r)"
  define D where "D = b * b - dot (Vec_minus (pos s) (ro r)) (Vec_minus (pos s) (ro r)) + rad s * rad s"
  have q: "sphere_quadratic s r t = (t - b)\<^sup>2 - D" for t
    unfolding sphere_quadratic_square [OF u] b_def D_def ..
  have I: "Sphere_intersect s r =
      (if D < 0 then 0
       else if 1 / 10 ^ 4 < b - sqrt D then b - sqrt D
       else if 1 / 10 ^ 4 < b + sqrt D then b + sqrt D else 0)"
    unfolding Sphere_intersect_def Let_def b_def [symmetric] D_def [symmetric] by simp
  show ?thesis
  proof (cases "D < 0")
    case True
    have "sphere_quadratic s r t \<noteq> 0" for t
    proof -
      have "0 \<le> (t - b)\<^sup>2" by simp
      with True show ?thesis unfolding q by linarith
    qed
    with True I show ?thesis by simp
  next
    case False
    then have D0: "0 \<le> D" by simp
    have r: "sphere_quadratic s r t = 0 \<longleftrightarrow> t = b - sqrt D \<or> t = b + sqrt D" for t
      unfolding q square_eq_sqrt [OF D0] by auto
    have s0: "0 \<le> sqrt D" using D0 by simp
    consider "1 / 10 ^ 4 < b - sqrt D"
      | "\<not> 1 / 10 ^ 4 < b - sqrt D" "1 / 10 ^ 4 < b + sqrt D"
      | "\<not> 1 / 10 ^ 4 < b - sqrt D" "\<not> 1 / 10 ^ 4 < b + sqrt D"
      by blast
    then show ?thesis
    proof cases
      case 1
      with False I have v: "Sphere_intersect s r = b - sqrt D" by simp
      from 1 have "\<exists>t. 1 / 10 ^ 4 < t \<and> (t = b - sqrt D \<or> t = b + sqrt D)"
        by (intro exI [of _ "b - sqrt D"]) simp
      then show ?thesis unfolding v r using 1 s0 by auto
    next
      case 2
      with False I have v: "Sphere_intersect s r = b + sqrt D" by simp
      show ?thesis unfolding v r using 2 s0 by auto
    next
      case 3
      with False I have v: "Sphere_intersect s r = 0" by simp
      show ?thesis unfolding v r using 3 s0 by auto
    qed
  qed
qed

text \<open>
  The loop of \<^const>\<open>intersect\<close> over any list of indices: the distance never grows, it
  ends below every distance of the list that is not zero, and the pair is the initial one or
  that of a sphere of the list.
\<close>

lemma fold_intersect_step:
  "(fst (fold (intersect_step r) js (t0, i0)) \<le> t0)
   \<and> (\<forall>j\<in>set js. Sphere_intersect (spheres ! j) r \<noteq> 0 \<longrightarrow>
         fst (fold (intersect_step r) js (t0, i0)) \<le> Sphere_intersect (spheres ! j) r)
   \<and> (fold (intersect_step r) js (t0, i0) = (t0, i0)
      \<or> (\<exists>j\<in>set js. fold (intersect_step r) js (t0, i0) = (Sphere_intersect (spheres ! j) r, int j)
            \<and> Sphere_intersect (spheres ! j) r \<noteq> 0 \<and> Sphere_intersect (spheres ! j) r < t0))"
proof (induction js arbitrary: t0 i0)
  case Nil
  show ?case by simp
next
  case (Cons j js)
  show ?case
  proof (cases "Sphere_intersect (spheres ! j) r \<noteq> 0 \<and> Sphere_intersect (spheres ! j) r < t0")
    case True
    then have st: "intersect_step r j (t0, i0) = (Sphere_intersect (spheres ! j) r, int j)"
      by (simp add: intersect_step_def)
    from Cons.IH [of "Sphere_intersect (spheres ! j) r" "int j"] True
    show ?thesis
      unfolding fold_Cons comp_def st
      by (fastforce simp: order_trans)
  next
    case False
    then have st: "intersect_step r j (t0, i0) = (t0, i0)"
      by (auto simp: intersect_step_def Let_def)
    from Cons.IH [of t0 i0] False
    show ?thesis
      unfolding fold_Cons comp_def st
      by fastforce
  qed
qed

lemma intersect_scene:
  "(fst (intersect r sid0) \<longleftrightarrow>
      (\<exists>i<length spheres. 0 < Sphere_intersect (spheres ! i) r
          \<and> Sphere_intersect (spheres ! i) r < 10 ^ 20))
   \<and> (fst (intersect r sid0) \<longrightarrow>
        0 \<le> snd (snd (intersect r sid0))
        \<and> nat (snd (snd (intersect r sid0))) < length spheres
        \<and> Sphere_intersect (spheres ! nat (snd (snd (intersect r sid0)))) r = fst (snd (intersect r sid0))
        \<and> 0 < fst (snd (intersect r sid0))
        \<and> (\<forall>i<length spheres. 0 < Sphere_intersect (spheres ! i) r \<longrightarrow>
              fst (snd (intersect r sid0)) \<le> Sphere_intersect (spheres ! i) r))
   \<and> (\<not> fst (intersect r sid0) \<longrightarrow> snd (intersect r sid0) = (10 ^ 20, sid0))"
proof -
  define F where "F = fold (intersect_step r) (rev [0..<length spheres]) (10 ^ 20, sid0)"
  have I: "intersect r sid0 = (fst F < 10 ^ 20, fst F, snd F)"
    by (simp add: intersect_def F_def Let_def split_beta)
  note f = fold_intersect_step [of r "rev [0..<length spheres]" "10 ^ 20" sid0, folded F_def]
  have pos: "Sphere_intersect (spheres ! i) r \<noteq> 0 \<longleftrightarrow> 0 < Sphere_intersect (spheres ! i) r" for i
    using Sphere_intersect_range [of "spheres ! i" r] by auto
  have 1: "fst F < 10 ^ 20 \<longleftrightarrow>
      (\<exists>i<length spheres. 0 < Sphere_intersect (spheres ! i) r
          \<and> Sphere_intersect (spheres ! i) r < 10 ^ 20)"
    using f pos by (fastforce simp: prod_eq_iff)
  have 2: "0 \<le> snd F \<and> nat (snd F) < length spheres
        \<and> Sphere_intersect (spheres ! nat (snd F)) r = fst F \<and> 0 < fst F
        \<and> (\<forall>i<length spheres. 0 < Sphere_intersect (spheres ! i) r \<longrightarrow>
              fst F \<le> Sphere_intersect (spheres ! i) r)" if "fst F < 10 ^ 20"
  proof -
    from f that obtain j where j: "j < length spheres" "F = (Sphere_intersect (spheres ! j) r, int j)"
      "Sphere_intersect (spheres ! j) r \<noteq> 0"
      by (auto simp: prod_eq_iff)
    from f pos have "\<forall>i<length spheres. 0 < Sphere_intersect (spheres ! i) r \<longrightarrow>
              fst F \<le> Sphere_intersect (spheres ! i) r"
      by simp
    with j pos show ?thesis by simp
  qed
  have 3: "(fst F, snd F) = (10 ^ 20, sid0)" if "\<not> fst F < 10 ^ 20"
    using f that by (auto simp: prod_eq_iff)
  show ?thesis
    unfolding I fst_conv snd_conv using 1 2 3 by blast
qed

lemma sqrt_49: "sqrt 49 = 7"
  by (rule real_sqrt_unique) simp_all

text \<open>
  The sphere test takes the direction to have unit length. On the ray from the origin with
  direction \<open>(2, 0, 0)\<close> and the unit sphere at \<open>(4, 0, 0)\<close> it returns \<open>1\<close>, where the
  quadratic is \<open>3\<close>; the smallest root of the quadratic is \<open>3/2\<close>.
\<close>

theorem sphere_root_counterexample:
  "Sphere_intersect (Sphere 1 (Vec 4 0 0) (Vec 0 0 0) blackSurf) (Ray (Vec 0 0 0) (Vec 2 0 0)) = 1
   \<and> sphere_quadratic (Sphere 1 (Vec 4 0 0) (Vec 0 0 0) blackSurf) (Ray (Vec 0 0 0) (Vec 2 0 0)) 1 = 3
   \<and> sphere_quadratic (Sphere 1 (Vec 4 0 0) (Vec 0 0 0) blackSurf) (Ray (Vec 0 0 0) (Vec 2 0 0)) (3 / 2) = 0
   \<and> (1 :: real) / 10 ^ 4 < 3 / 2"
  by (simp add: Sphere_intersect_def sphere_quadratic_def vec_defs Let_def sqrt_49 power2_eq_square)

text \<open>
  C3, amended. For every ray whose direction \<open>d\<close> has \<open>d \<cdot> d = 1\<close>, the sphere test
  returns the smallest root of the quadratic that exceeds \<open>1 / 10 ^ 4\<close>, and \<open>0\<close> when there
  is none. For every ray, \<^const>\<open>intersect\<close> over the eight spheres reports a hit exactly
  when some sphere yields a positive distance below \<open>10 ^ 20\<close>, and then returns the least
  positive distance of all spheres with the index of a sphere that yields it.
\<close>

theorem intersect_nearest:
  "(dot (rd r) (rd r) = 1 \<longrightarrow>
      ((\<exists>t. 1 / 10 ^ 4 < t \<and> sphere_quadratic s r t = 0) \<longrightarrow>
          1 / 10 ^ 4 < Sphere_intersect s r
          \<and> sphere_quadratic s r (Sphere_intersect s r) = 0
          \<and> (\<forall>t. 1 / 10 ^ 4 < t \<and> sphere_quadratic s r t = 0 \<longrightarrow> Sphere_intersect s r \<le> t))
      \<and> (\<not> (\<exists>t. 1 / 10 ^ 4 < t \<and> sphere_quadratic s r t = 0) \<longrightarrow> Sphere_intersect s r = 0))
   \<and> length spheres = 8
   \<and> (fst (intersect r sid0) \<longleftrightarrow>
        (\<exists>i<length spheres. 0 < Sphere_intersect (spheres ! i) r
            \<and> Sphere_intersect (spheres ! i) r < 10 ^ 20))
   \<and> (fst (intersect r sid0) \<longrightarrow>
        0 \<le> snd (snd (intersect r sid0))
        \<and> nat (snd (snd (intersect r sid0))) < length spheres
        \<and> Sphere_intersect (spheres ! nat (snd (snd (intersect r sid0)))) r = fst (snd (intersect r sid0))
        \<and> 0 < fst (snd (intersect r sid0))
        \<and> (\<forall>i<length spheres. 0 < Sphere_intersect (spheres ! i) r \<longrightarrow>
              fst (snd (intersect r sid0)) \<le> Sphere_intersect (spheres ! i) r))"
  using Sphere_intersect_roots [of r s] intersect_scene [of r sid0]
  by (simp add: spheres_def)

text \<open>
  On the ray from the mirror ball to the light: the direction has unit length, the light is
  hit at its root \<open>50.4\<close> at the latest, the diffuse ball (sphere 5) has no root and yields
  \<open>0\<close>, and the scene reports a hit no farther than the light.
\<close>

theorem intersect_nearest_witness:
  "dot (Vec (- (5 / 21)) (20 / 21) (4 / 21)) (Vec (- (5 / 21)) (20 / 21) (4 / 21)) = 1
   \<and> sphere_quadratic (spheres ! 7) (Ray (Vec 62 22 67) (Vec (- (5 / 21)) (20 / 21) (4 / 21))) (252 / 5) = 0
   \<and> 1 / 10 ^ 4 < Sphere_intersect (spheres ! 7) (Ray (Vec 62 22 67) (Vec (- (5 / 21)) (20 / 21) (4 / 21)))
   \<and> Sphere_intersect (spheres ! 7) (Ray (Vec 62 22 67) (Vec (- (5 / 21)) (20 / 21) (4 / 21))) \<le> 252 / 5
   \<and> Sphere_intersect (spheres ! 5) (Ray (Vec 62 22 67) (Vec (- (5 / 21)) (20 / 21) (4 / 21))) = 0
   \<and> fst (intersect (Ray (Vec 62 22 67) (Vec (- (5 / 21)) (20 / 21) (4 / 21))) 0)
   \<and> fst (snd (intersect (Ray (Vec 62 22 67) (Vec (- (5 / 21)) (20 / 21) (4 / 21))) 0))
        \<le> Sphere_intersect (spheres ! 7) (Ray (Vec 62 22 67) (Vec (- (5 / 21)) (20 / 21) (4 / 21)))"
proof -
  let ?r = "Ray (Vec 62 22 67) (Vec (- (5 / 21)) (20 / 21) (4 / 21))"
  have u: "dot (rd ?r) (rd ?r) = 1"
    by (simp add: vec_defs)
  have q: "sphere_quadratic (spheres ! 7) ?r (252 / 5) = 0"
    by (simp add: sphere_quadratic_def sphere_nth vec_defs power2_eq_square)
  then have e7: "\<exists>t. 1 / 10 ^ 4 < t \<and> sphere_quadratic (spheres ! 7) ?r t = 0"
    by (intro exI [of _ "252 / 5"]) simp
  have "sphere_quadratic (spheres ! 5) ?r t \<noteq> 0" for t
  proof -
    have "0 \<le> (t - dot (Vec_minus (pos (spheres ! 5)) (ro ?r)) (rd ?r))\<^sup>2"
      by (rule zero_le_power2)
    moreover have "dot (Vec_minus (pos (spheres ! 5)) (ro ?r)) (rd ?r)
          * dot (Vec_minus (pos (spheres ! 5)) (ro ?r)) (rd ?r)
        - dot (Vec_minus (pos (spheres ! 5)) (ro ?r)) (Vec_minus (pos (spheres ! 5)) (ro ?r))
        + rad (spheres ! 5) * rad (spheres ! 5) < 0"
      by (simp add: sphere_nth vec_defs)
    ultimately show ?thesis
      unfolding sphere_quadratic_square [OF u] by linarith
  qed
  then have e5: "\<not> (\<exists>t. 1 / 10 ^ 4 < t \<and> sphere_quadratic (spheres ! 5) ?r t = 0)"
    by simp
  have d7: "0 < Sphere_intersect (spheres ! 7) ?r \<and> Sphere_intersect (spheres ! 7) ?r < 10 ^ 20"
    by (simp add: light_ray_7)
  then have h: "\<exists>i<length spheres. 0 < Sphere_intersect (spheres ! i) ?r
      \<and> Sphere_intersect (spheres ! i) ?r < 10 ^ 20"
    by (intro exI [of _ 7]) (simp add: spheres_def)
  note a = intersect_nearest [of ?r "spheres ! 7" 0]
  note b = intersect_nearest [of ?r "spheres ! 5" 0]
  note a1 = a [THEN conjunct1, THEN mp, OF u, THEN conjunct1, THEN mp, OF e7]
  note b1 = b [THEN conjunct1, THEN mp, OF u, THEN conjunct2, THEN mp, OF e5]
  note sc = a [THEN conjunct2, THEN conjunct2]
  have 1: "1 / 10 ^ 4 < Sphere_intersect (spheres ! 7) ?r"
    by (rule a1 [THEN conjunct1])
  have "(1::real) / 10 ^ 4 < 252 / 5 \<and> sphere_quadratic (spheres ! 7) ?r (252 / 5) = 0"
    using q by simp
  then have 2: "Sphere_intersect (spheres ! 7) ?r \<le> 252 / 5"
    by (rule a1 [THEN conjunct2, THEN conjunct2, THEN spec, THEN mp])
  have 3: "fst (intersect ?r 0)"
    using h by (rule sc [THEN conjunct1, THEN iffD2])
  note sc2 = sc [THEN conjunct2, THEN mp, OF 3]
  have "(7::nat) < length spheres" by (simp add: spheres_def)
  then have "0 < Sphere_intersect (spheres ! 7) ?r \<longrightarrow>
      fst (snd (intersect ?r 0)) \<le> Sphere_intersect (spheres ! 7) ?r"
    by (rule sc2 [THEN conjunct2, THEN conjunct2, THEN conjunct2, THEN conjunct2, THEN spec, THEN mp])
  with d7 have 4: "fst (snd (intersect ?r 0)) \<le> Sphere_intersect (spheres ! 7) ?r"
    by simp
  have u': "dot (Vec (- (5 / 21)) (20 / 21) (4 / 21)) (Vec (- (5 / 21)) (20 / 21) (4 / 21)) = 1"
    using u by simp
  show ?thesis
    by (intro conjI u' q 1 2 b1 3 4)
qed

section \<open>The loops of the driver\<close>

text \<open>
  A loop whose body does not look at its index runs the body once for each index. With a
  sample count that is not positive the loop over the samples never runs: no ray is traced,
  every pixel stays black and \<^const>\<open>main\<close> returns whatever the fuel. With a positive
  count the first sample traces a ray, which without fuel does not return.
\<close>

lemma for_each_fixed:
  "(\<And>i. i \<in> set js \<Longrightarrow> body i s = Some s) \<Longrightarrow> for_each js body s = Some s"
  by (induction js) simp_all

lemma for_each_stops:
  "js \<noteq> [] \<Longrightarrow> (\<And>i s. body i s = None) \<Longrightarrow> for_each js body s = None"
  by (cases js) simp_all

lemma bind_funpow_None:
  fixes f :: "'s \<Rightarrow> 's option"
  shows "((\<lambda>a. Option.bind a f) ^^ n) None = None"
  by (induction n) simp_all

lemma for_each_funpow:
  fixes f :: "'s \<Rightarrow> 's option"
  shows "for_each js (\<lambda>i. f) s = ((\<lambda>a. Option.bind a f) ^^ length js) (Some s)"
proof (induction js arbitrary: s)
  case Nil
  show ?case by simp
next
  case (Cons j js)
  show ?case
  proof (cases "f s")
    case None
    then show ?thesis
      by (simp add: funpow_Suc_right bind_funpow_None del: funpow.simps)
  next
    case (Some s')
    then show ?thesis
      using Cons [of s'] by (simp add: funpow_Suc_right del: funpow.simps)
  qed
qed

lemma subpixel_funpow:
  "subpixel k lr w h samps cx cy x y sy sx (c, g)
    = (case ((\<lambda>a. Option.bind a (camera_sample k lr w h samps cx cy x y sx sy)) ^^ nat samps)
              (Some (Vec 0 0 0, g)) of
         None \<Rightarrow> None
       | Some (r, g') \<Rightarrow>
           Some (c[(h - y - 1) * w + x := DVec_plus (c ! ((h - y - 1) * w + x))
                    (DVec_times
                       (DVec (clamp (Finite (vx r))) (clamp (Finite (vy r))) (clamp (Finite (vz r))))
                       (Finite 0.25))], g'))"
  unfolding subpixel_def Let_def for_each_funpow
  by (simp only: prod.case length_upt diff_zero)

lemma subpixel_no_samples:
  assumes "samps \<le> 0"
  shows "subpixel k lr w h samps cx cy x y sy sx
            (replicate n (DVec (Finite 0) (Finite 0) (Finite 0)), g)
    = Some (replicate n (DVec (Finite 0) (Finite 0) (Finite 0)), g)"
proof -
  have c: "clamp (Finite 0) = Finite 0" by (simp add: clamp_def)
  have "(replicate n (DVec (Finite 0) (Finite 0) (Finite 0)))
      [i := DVec_plus (replicate n (DVec (Finite 0) (Finite 0) (Finite 0)) ! i)
              (DVec_times (DVec (Finite 0) (Finite 0) (Finite 0)) (Finite 0.25))]
      = replicate n (DVec (Finite 0) (Finite 0) (Finite 0))" for i
    by (cases "i < n")
      (simp_all add: DVec_plus_def DVec_times_def list_update_same_conv list_update_beyond)
  with assms show ?thesis
    by (simp add: subpixel_def Let_def c)
qed

lemma render_no_samples:
  assumes "samps \<le> 0"
  shows "render k lr w h samps cx cy (replicate n (DVec (Finite 0) (Finite 0) (Finite 0)), g)
    = Some (replicate n (DVec (Finite 0) (Finite 0) (Finite 0)), g)"
  unfolding render_def
  by (intro for_each_fixed subpixel_no_samples assms)

lemma camera_sample_no_fuel: "camera_sample 0 lr w h samps cx cy x y sx sy acc = None"
  by (simp add: camera_sample_def Let_def split_beta)

lemma subpixel_no_fuel:
  assumes "0 < samps"
  shows "subpixel 0 lr w h samps cx cy x y sy sx st = None"
proof -
  from assms have "[0..<nat samps] \<noteq> []" by simp
  then have "for_each [0..<nat samps] (\<lambda>s. camera_sample 0 lr w h samps cx cy x y sx sy) a = None"
    for a
    by (rule for_each_stops) (rule camera_sample_no_fuel)
  then show ?thesis
    by (simp add: subpixel_def Let_def split_beta)
qed

lemma render_no_fuel:
  assumes "0 < samps" "0 < w" "0 < h"
  shows "render 0 lr w h samps cx cy st = None"
proof -
  have 2: "[0..<2::nat] \<noteq> []" by simp
  have w: "[0..<w] \<noteq> []" and h: "[0..<h] \<noteq> []" using assms by simp_all
  show ?thesis
    unfolding render_def
    by (intro for_each_stops h w 2 subpixel_no_fuel assms(1))
qed

lemma main_render:
  "main k lr argv g =
     (case render k lr 480 360 (main_samps argv) (Vec (480 * 0.5135 / 360) 0 0)
             (Vec_times (normalizeV (cross (Vec (480 * 0.5135 / 360) 0 0) (rd cam))) 0.5135)
             (replicate (480 * 360) (DVec (Finite 0) (Finite 0) (Finite 0)), g) of
        None \<Rightarrow> None
      | Some (c, g') \<Rightarrow> Some (0, ppm_text 480 360 c))"
  unfolding main_def Let_def by (simp only: of_nat_numeral)

lemma main_no_samples:
  assumes "main_samps argv \<le> 0"
  shows "main k lr argv g
    = Some (0, ppm_text 480 360 (replicate (480 * 360) (DVec (Finite 0) (Finite 0) (Finite 0))))"
  unfolding main_render render_no_samples [OF assms]
  by (simp only: option.case prod.case)

lemma main_no_fuel:
  assumes "0 < main_samps argv"
  shows "main 0 lr argv g = None"
proof -
  have "(0::nat) < 480" and "(0::nat) < 360" by simp_all
  from render_no_fuel [OF assms this] show ?thesis
    unfolding main_render by (simp only: option.case)
qed

lemma case_render_result:
  "(case R of None \<Rightarrow> None | Some (c, g') \<Rightarrow> Some (a, f c)) = Some (st, img)
    \<Longrightarrow> st = a \<and> (\<exists>c. img = f c)"
  by (auto split: option.splits)

lemma main_status:
  assumes "main k lr argv g = Some (st, img)"
  shows "st = 0"
  using assms unfolding main_def Let_def by (rule case_render_result [THEN conjunct1])

section \<open>The pixel encoding and the image file\<close>

text \<open>
  \<^const>\<open>clamp\<close> sends every double but NaN to a finite number between \<open>0\<close> and \<open>1\<close>,
  and NaN to NaN. After it the gamma-encoded value lies between \<open>0\<close> and \<open>255\<close>, so the
  cast of \<^const>\<open>toInt\<close> is a floor.
\<close>

lemma clamp_Finite: "clamp (Finite a) = Finite (if a < 0 then 0 else if 1 < a then 1 else a)"
  by (simp add: clamp_def)

lemma clamp_special: "clamp PInf = Finite 1" "clamp NInf = Finite 0" "clamp NaN = NaN"
  by (simp_all add: clamp_def)

lemma clamp_range: "clamp x = Finite v \<Longrightarrow> 0 \<le> v \<and> v \<le> 1"
  by (cases x) (auto simp: clamp_def split: if_splits)

lemma clamp_not_NaN: "x \<noteq> NaN \<Longrightarrow> \<exists>v. clamp x = Finite v"
  by (cases x) (simp_all add: clamp_Finite clamp_special)

lemma gamma_range:
  fixes v :: real
  assumes "0 \<le> v" "v \<le> 1"
  shows "0 \<le> v powr (1 / 2.2) * 255 \<and> v powr (1 / 2.2) * 255 \<le> 255"
proof -
  have "v powr (1 / 2.2) \<le> 1"
    using assms by (intro powr_le1) simp_all
  then show ?thesis by simp
qed

lemma toInt_of_clamp:
  assumes c: "clamp x = Finite v"
  shows "toInt x = \<lfloor>v powr (1 / 2.2) * 255 + 1 / 2\<rfloor>"
    and "0 \<le> toInt x" and "toInt x \<le> 255"
    and "\<bar>real_of_int (toInt x) - v powr (1 / 2.2) * 255\<bar> \<le> 1 / 2"
proof -
  define y where "y = v powr (1 / 2.2) * 255 + 1 / 2"
  from clamp_range [OF c] have v: "0 \<le> v" "v \<le> 1" by simp_all
  from gamma_range [OF v] have y: "1 / 2 \<le> y" "y < 256"
    by (simp_all add: y_def)
  then have f: "0 \<le> \<lfloor>y\<rfloor>" "\<lfloor>y\<rfloor> < 256"
    by (simp_all add: floor_less_iff)
  have "toInt x = static_cast_int (Finite y)"
    using v by (simp add: toInt_def c y_def)
  also have "\<dots> = \<lfloor>y\<rfloor>"
    using y f by (simp add: Let_def)
  finally show t: "toInt x = \<lfloor>v powr (1 / 2.2) * 255 + 1 / 2\<rfloor>"
    unfolding y_def .
  from f show "0 \<le> toInt x" and "toInt x \<le> 255"
    unfolding t y_def by simp_all
  show "\<bar>real_of_int (toInt x) - v powr (1 / 2.2) * 255\<bar> \<le> 1 / 2"
    unfolding t by linarith
qed

lemma toInt_NaN: "toInt NaN = - 2147483648"
  by (simp add: toInt_def clamp_def)

lemma show_nat_small: "n < 10 \<Longrightarrow> show_nat n = [''0123456789'' ! n]"
  by (subst show_nat.simps) simp

lemma show_nat_large:
  "10 \<le> n \<Longrightarrow> show_nat n = show_nat (n div 10) @ [''0123456789'' ! (n mod 10)]"
  by (subst show_nat.simps) simp

lemma show_int_examples:
  "show_int 480 = ''480''" "show_int 360 = ''360''" "show_int 255 = ''255''"
  "show_int 0 = ''0''" "show_int (- 2147483648) = ''-2147483648''"
  by (simp_all add: show_int_def show_nat_small show_nat_large)

lemma ppm_header_main:
  "ppm_header 480 360 = ''P3'' @ [CHR 0x0A] @ ''480 360'' @ [CHR 0x0A] @ ''255'' @ [CHR 0x0A]"
  by (simp add: ppm_header_def show_int_examples)

lemma ppm_text_main:
  "ppm_text 480 360 c
    = ''P3'' @ [CHR 0x0A] @ ''480 360'' @ [CHR 0x0A] @ ''255'' @ [CHR 0x0A]
        @ concat (map (\<lambda>i. show_int (toInt (dx (c ! i))) @ '' ''
                          @ show_int (toInt (dy (c ! i))) @ '' ''
                          @ show_int (toInt (dz (c ! i))) @ '' '') [0..<480 * 360])"
  unfolding ppm_text_def ppm_header_main ppm_pixel_def by (simp only: append_assoc)

text \<open>
  A channel that is NaN passes \<^const>\<open>clamp\<close> unchanged (both comparisons are false), the
  cast of \<^const>\<open>toInt\<close> yields \<open>-2147483648\<close>, and that is the number written for it. (In
  the program a NaN arises where \<^verbatim>\<open>indirectedRadiance\<close> divides by a density that is
  zero; the estimator of this development is on the reals and has none.)
\<close>

theorem NaN_channel_counterexample:
  "clamp NaN = NaN \<and> toInt NaN = - 2147483648
   \<and> ppm_pixel (DVec NaN (Finite 0) (Finite 1)) = ''-2147483648 0 255 ''"
proof -
  have 0: "toInt (Finite 0) = 0"
    by (simp add: toInt_def clamp_def)
  have 1: "toInt (Finite 1) = 255"
    by (simp add: toInt_def clamp_def)
  show ?thesis
    by (simp add: ppm_pixel_def toInt_NaN 0 1 show_int_examples clamp_special)
qed

text \<open>
  C7, amended. For every double \<open>x\<close> that is not NaN, \<^const>\<open>clamp\<close> gives a finite \<open>v\<close>
  between \<open>0\<close> and \<open>1\<close> (\<open>0\<close> for \<open>x\<close> below \<open>0\<close>, \<open>1\<close> for \<open>x\<close> above \<open>1\<close>, else
  \<open>x\<close>), and \<^const>\<open>toInt\<close> is the floor of \<open>v powr (1 / 2.2) * 255 + 1/2\<close>: an integer
  within \<open>1/2\<close> of \<open>v powr (1 / 2.2) * 255\<close> and between \<open>0\<close> and \<open>255\<close>. For every pixel
  buffer, the file written is the header \<open>P3\<close>, \<open>480 360\<close>, \<open>255\<close> followed by the three
  channels of each pixel, every one printed from a \<^const>\<open>toInt\<close>; so every channel that is
  not NaN is written as an integer between \<open>0\<close> and \<open>255\<close>. \<^const>\<open>main\<close> writes the
  file of the buffer that its loops deliver.
\<close>

theorem toInt_pixel:
  "(x = Finite a \<longrightarrow> clamp x = Finite (if a < 0 then 0 else if 1 < a then 1 else a))
   \<and> (x = PInf \<longrightarrow> clamp x = Finite 1)
   \<and> (x = NInf \<longrightarrow> clamp x = Finite 0)
   \<and> (clamp x = Finite v \<longrightarrow>
        0 \<le> v \<and> v \<le> 1
        \<and> toInt x = \<lfloor>v powr (1 / 2.2) * 255 + 1 / 2\<rfloor>
        \<and> \<bar>real_of_int (toInt x) - v powr (1 / 2.2) * 255\<bar> \<le> 1 / 2)
   \<and> (x \<noteq> NaN \<longrightarrow> (\<exists>u. clamp x = Finite u) \<and> 0 \<le> toInt x \<and> toInt x \<le> 255)
   \<and> ppm_text 480 360 c
       = ''P3'' @ [CHR 0x0A] @ ''480 360'' @ [CHR 0x0A] @ ''255'' @ [CHR 0x0A]
           @ concat (map (\<lambda>i. show_int (toInt (dx (c ! i))) @ '' ''
                             @ show_int (toInt (dy (c ! i))) @ '' ''
                             @ show_int (toInt (dz (c ! i))) @ '' '') [0..<480 * 360])
   \<and> main k lr argv g =
       (case render k lr 480 360 (main_samps argv) (Vec (480 * 0.5135 / 360) 0 0)
               (Vec_times (normalizeV (cross (Vec (480 * 0.5135 / 360) 0 0) (rd cam))) 0.5135)
               (replicate (480 * 360) (DVec (Finite 0) (Finite 0) (Finite 0)), g) of
          None \<Rightarrow> None
        | Some (b, g') \<Rightarrow> Some (0, ppm_text 480 360 b))"
proof -
  have 1: "x = Finite a \<longrightarrow> clamp x = Finite (if a < 0 then 0 else if 1 < a then 1 else a)"
    by (simp add: clamp_Finite)
  have 2: "x = PInf \<longrightarrow> clamp x = Finite 1" and 3: "x = NInf \<longrightarrow> clamp x = Finite 0"
    by (simp_all add: clamp_special)
  have 4: "clamp x = Finite v \<longrightarrow>
        0 \<le> v \<and> v \<le> 1
        \<and> toInt x = \<lfloor>v powr (1 / 2.2) * 255 + 1 / 2\<rfloor>
        \<and> \<bar>real_of_int (toInt x) - v powr (1 / 2.2) * 255\<bar> \<le> 1 / 2"
    using clamp_range [of x v] toInt_of_clamp(1) [of x v] toInt_of_clamp(4) [of x v] by blast
  have 5: "x \<noteq> NaN \<longrightarrow> (\<exists>u. clamp x = Finite u) \<and> 0 \<le> toInt x \<and> toInt x \<le> 255"
  proof
    assume "x \<noteq> NaN"
    from clamp_not_NaN [OF this] obtain u where u: "clamp x = Finite u" by blast
    from u toInt_of_clamp(2) [OF u] toInt_of_clamp(3) [OF u]
    show "(\<exists>u. clamp x = Finite u) \<and> 0 \<le> toInt x \<and> toInt x \<le> 255" by blast
  qed
  show ?thesis
    by (intro conjI 1 2 3 4 5 ppm_text_main main_render)
qed

text \<open>
  Channels below \<open>0\<close>, above \<open>1\<close>, infinite and inside the range.
\<close>

theorem toInt_pixel_witness:
  "toInt (Finite (- 3)) = 0 \<and> toInt (Finite 2) = 255 \<and> toInt PInf = 255 \<and> toInt NInf = 0
   \<and> 0 \<le> toInt (Finite (1 / 2)) \<and> toInt (Finite (1 / 2)) \<le> 255
   \<and> \<bar>real_of_int (toInt (Finite (1 / 2))) - (1 / 2) powr (1 / 2.2) * 255\<bar> \<le> 1 / 2"
proof -
  note a = toInt_pixel [where x = "Finite (- 3)" and a = "- 3" and v = 0 and c = "[]"]
  note b = toInt_pixel [where x = "Finite 2" and a = 2 and v = 1 and c = "[]"]
  note p = toInt_pixel [where x = PInf and a = 0 and v = 1 and c = "[]"]
  note n = toInt_pixel [where x = NInf and a = 0 and v = 0 and c = "[]"]
  note h = toInt_pixel [where x = "Finite (1 / 2)" and a = "1 / 2" and v = "1 / 2" and c = "[]"]
  have ca: "clamp (Finite (- 3)) = Finite 0"
    using a [THEN conjunct1] by simp
  have cb: "clamp (Finite 2) = Finite 1"
    using b [THEN conjunct1] by simp
  have cp: "clamp PInf = Finite 1"
    using p [THEN conjunct2, THEN conjunct1] by simp
  have cn: "clamp NInf = Finite 0"
    using n [THEN conjunct2, THEN conjunct2, THEN conjunct1] by simp
  have ch: "clamp (Finite (1 / 2)) = Finite (1 / 2)"
    using h [THEN conjunct1] by simp
  have 1: "toInt (Finite (- 3)) = 0"
    using a [THEN conjunct2, THEN conjunct2, THEN conjunct2, THEN conjunct1, THEN mp, OF ca]
    by simp
  have 2: "toInt (Finite 2) = 255"
    using b [THEN conjunct2, THEN conjunct2, THEN conjunct2, THEN conjunct1, THEN mp, OF cb]
    by simp
  have 3: "toInt PInf = 255"
    using p [THEN conjunct2, THEN conjunct2, THEN conjunct2, THEN conjunct1, THEN mp, OF cp]
    by simp
  have 4: "toInt NInf = 0"
    using n [THEN conjunct2, THEN conjunct2, THEN conjunct2, THEN conjunct1, THEN mp, OF cn]
    by simp
  have 5: "0 \<le> toInt (Finite (1 / 2)) \<and> toInt (Finite (1 / 2)) \<le> 255"
    using h [THEN conjunct2, THEN conjunct2, THEN conjunct2, THEN conjunct2, THEN conjunct1]
    by simp
  have 6: "\<bar>real_of_int (toInt (Finite (1 / 2))) - (1 / 2) powr (1 / 2.2) * 255\<bar> \<le> 1 / 2"
    by (rule h [THEN conjunct2, THEN conjunct2, THEN conjunct2, THEN conjunct1, THEN mp, OF ch,
          THEN conjunct2, THEN conjunct2, THEN conjunct2])
  from 1 2 3 4 5 6 show ?thesis
    by (intro conjI) simp_all
qed

section \<open>The sample count\<close>

text \<open>
  \<^const>\<open>atoi\<close> is \<open>0\<close> on a string without a digit, and always a 32-bit value.
\<close>

lemma atoi_digits_none: "cs = [] \<or> \<not> isdigit (hd cs) \<Longrightarrow> atoi_digits acc cs = acc"
  by (cases cs) auto

lemma strtol_no_digit:
  assumes "\<forall>ch\<in>set s. \<not> isdigit ch"
  shows "strtol s = 0"
proof (cases "dropWhile isspace s")
  case Nil
  show ?thesis unfolding strtol_def Nil by simp
next
  case (Cons c cs)
  then have "set (c # cs) \<subseteq> set s"
    by (metis set_dropWhileD subsetI)
  with assms have c: "\<not> isdigit c" and cs: "cs = [] \<or> \<not> isdigit (hd cs)"
    by (cases cs; auto)+
  have d: "atoi_digits 0 cs = 0" by (rule atoi_digits_none [OF cs])
  have e: "atoi_digits 0 (c # cs) = 0" using c by simp
  show ?thesis
    unfolding strtol_def Cons list.case d e by simp
qed

lemma main_samps_no_digit:
  assumes "length argv = 2" and "\<forall>ch\<in>set (argv ! 1). \<not> isdigit ch"
  shows "main_samps argv = 0"
  using assms(1) strtol_no_digit [OF assms(2)]
  by (simp add: main_samps_def atoi_def int_of_long_def signed_divide_int_def)

lemma atoi_range: "- (2 ^ 31) \<le> atoi s \<and> atoi s < 2 ^ 31"
proof -
  have "0 \<le> (strtol s + 2 ^ 31) mod 2 ^ 32" and "(strtol s + 2 ^ 31) mod 2 ^ 32 < 2 ^ 32"
    by simp_all
  then show ?thesis
    by (simp add: atoi_def int_of_long_def)
qed

text \<open>
  C8. With exactly one argument the sample count is \<^const>\<open>atoi\<close> of it (a 32-bit
  \<^verbatim>\<open>int\<close>, \<open>0\<close> when the argument has no digit) divided by \<open>4\<close>; with none (or with more
  than one) it is \<open>1\<close>. Nothing is checked: \<^const>\<open>main\<close> renders with that count, each
  subpixel taking exactly that many camera samples (none when the count is not positive),
  and writes the image. When the count is not positive \<^const>\<open>main\<close> writes a black image
  and returns; when it is positive a ray is traced; and whenever \<^const>\<open>main\<close> returns the
  exit status is \<open>0\<close>.
\<close>

theorem main_samps_unvalidated:
  "(length argv = 2 \<longrightarrow> main_samps argv = atoi (argv ! 1) sdiv 4)
   \<and> (length argv \<noteq> 2 \<longrightarrow> main_samps argv = 1)
   \<and> - (2 ^ 31) \<le> atoi s \<and> atoi s < 2 ^ 31
   \<and> (length argv = 2 \<and> (\<forall>ch\<in>set (argv ! 1). \<not> isdigit ch) \<longrightarrow> main_samps argv = 0)
   \<and> main k lr argv g =
       (case render k lr 480 360 (main_samps argv) (Vec (480 * 0.5135 / 360) 0 0)
               (Vec_times (normalizeV (cross (Vec (480 * 0.5135 / 360) 0 0) (rd cam))) 0.5135)
               (replicate (480 * 360) (DVec (Finite 0) (Finite 0) (Finite 0)), g) of
          None \<Rightarrow> None
        | Some (c, g') \<Rightarrow> Some (0, ppm_text 480 360 c))
   \<and> render k lr w h samps cx cy
       = for_each [0..<h] (\<lambda>y.
           for_each [0..<w] (\<lambda>x.
             for_each [0..<2] (\<lambda>sy.
               for_each [0..<2] (\<lambda>sx.
                 subpixel k lr w h samps cx cy x y sy sx))))
   \<and> subpixel k lr w h samps cx cy x y sy sx (c, g)
       = (case ((\<lambda>a. Option.bind a (camera_sample k lr w h samps cx cy x y sx sy)) ^^ nat samps)
                 (Some (Vec 0 0 0, g)) of
            None \<Rightarrow> None
          | Some (r, g') \<Rightarrow>
              Some (c[(h - y - 1) * w + x := DVec_plus (c ! ((h - y - 1) * w + x))
                       (DVec_times
                          (DVec (clamp (Finite (vx r))) (clamp (Finite (vy r)))
                             (clamp (Finite (vz r))))
                          (Finite 0.25))], g'))
   \<and> (main_samps argv \<le> 0 \<longrightarrow>
        main k lr argv g
          = Some (0, ppm_text 480 360
                       (replicate (480 * 360) (DVec (Finite 0) (Finite 0) (Finite 0)))))
   \<and> (0 < main_samps argv \<longrightarrow> main 0 lr argv g = None)
   \<and> (main k lr argv g = Some (st, img) \<longrightarrow> st = 0)"
proof -
  have 1: "length argv = 2 \<longrightarrow> main_samps argv = atoi (argv ! 1) sdiv 4"
    and 2: "length argv \<noteq> 2 \<longrightarrow> main_samps argv = 1"
    by (simp_all add: main_samps_def)
  have 3: "length argv = 2 \<and> (\<forall>ch\<in>set (argv ! 1). \<not> isdigit ch) \<longrightarrow> main_samps argv = 0"
    using main_samps_no_digit [of argv] by blast
  have 4: "main_samps argv \<le> 0 \<longrightarrow>
        main k lr argv g
          = Some (0, ppm_text 480 360
                       (replicate (480 * 360) (DVec (Finite 0) (Finite 0) (Finite 0))))"
    by (rule impI) (rule main_no_samples)
  have 5: "0 < main_samps argv \<longrightarrow> main 0 lr argv g = None"
    by (rule impI) (rule main_no_fuel)
  have 6: "main k lr argv g = Some (st, img) \<longrightarrow> st = 0"
    by (rule impI) (rule main_status)
  show ?thesis
    by (intro conjI 1 2 3 4 5 6 main_render render_def subpixel_funpow
        atoi_range [THEN conjunct1] atoi_range [THEN conjunct2])
qed

text \<open>
  The arguments \<open>abc\<close>, \<open>-8\<close> and \<open>2147483648\<close> give the counts \<open>0\<close>, \<open>-2\<close> and
  \<open>-536870912\<close>, and the run ends with status \<open>0\<close> and a black image; \<open>8\<close> gives \<open>2\<close>
  and a ray is traced; no argument gives \<open>1\<close>.
\<close>

theorem main_samps_unvalidated_witness:
  "main_samps [''simplept'', ''abc''] = 0
   \<and> main_samps [''simplept'', ''-8''] = - 2
   \<and> main_samps [''simplept'', ''2147483648''] = - 536870912
   \<and> main_samps [''simplept'', ''8''] = 2
   \<and> main_samps [''simplept''] = 1
   \<and> main 0 True [''simplept'', ''abc''] (sconst 0)
       = Some (0, ppm_text 480 360 (replicate (480 * 360) (DVec (Finite 0) (Finite 0) (Finite 0))))
   \<and> main 0 True [''simplept'', ''-8''] (sconst 0)
       = Some (0, ppm_text 480 360 (replicate (480 * 360) (DVec (Finite 0) (Finite 0) (Finite 0))))
   \<and> main 0 True [''simplept'', ''2147483648''] (sconst 0)
       = Some (0, ppm_text 480 360 (replicate (480 * 360) (DVec (Finite 0) (Finite 0) (Finite 0))))
   \<and> main 0 True [''simplept'', ''8''] (sconst 0) = None
   \<and> fst (the (main 0 True [''simplept'', ''abc''] (sconst 0))) = 0"
proof -
  let ?black = "ppm_text 480 360 (replicate (480 * 360) (DVec (Finite 0) (Finite 0) (Finite 0)))"
  note a = main_samps_unvalidated [where argv = "[''simplept'', ''abc'']" and k = 0 and lr = True
      and g = "sconst 0"]
  note b = main_samps_unvalidated [where argv = "[''simplept'', ''-8'']" and k = 0 and lr = True
      and g = "sconst 0"]
  note c = main_samps_unvalidated [where argv = "[''simplept'', ''2147483648'']" and k = 0
      and lr = True and g = "sconst 0"]
  note d = main_samps_unvalidated [where argv = "[''simplept'', ''8'']" and k = 0 and lr = True
      and g = "sconst 0"]
  note e = main_samps_unvalidated [where argv = "[''simplept'']" and k = 0 and lr = True
      and g = "sconst 0"]
  have "length [''simplept'', ''abc''] = 2
      \<and> (\<forall>ch\<in>set ([''simplept'', ''abc''] ! 1). \<not> isdigit ch)"
    by (simp add: isdigit_def)
  then have 1: "main_samps [''simplept'', ''abc''] = 0"
    by (rule a [THEN conjunct2, THEN conjunct2, THEN conjunct2, THEN conjunct2, THEN conjunct1,
          THEN mp])
  have "main_samps [''simplept'', ''-8''] = atoi ([''simplept'', ''-8''] ! 1) sdiv 4"
    by (rule b [THEN conjunct1, THEN mp]) simp
  then have 2: "main_samps [''simplept'', ''-8''] = - 2"
    by (simp add: atoi_def strtol_def int_of_long_def isspace_def isdigit_def
        signed_divide_int_def)
  have "main_samps [''simplept'', ''2147483648'']
      = atoi ([''simplept'', ''2147483648''] ! 1) sdiv 4"
    by (rule c [THEN conjunct1, THEN mp]) simp
  then have 3: "main_samps [''simplept'', ''2147483648''] = - 536870912"
    by (simp add: atoi_def strtol_def int_of_long_def isspace_def isdigit_def
        signed_divide_int_def)
  have "main_samps [''simplept'', ''8''] = atoi ([''simplept'', ''8''] ! 1) sdiv 4"
    by (rule d [THEN conjunct1, THEN mp]) simp
  then have 4: "main_samps [''simplept'', ''8''] = 2"
    by (simp add: atoi_def strtol_def int_of_long_def isspace_def isdigit_def
        signed_divide_int_def)
  have 5: "main_samps [''simplept''] = 1"
    by (rule e [THEN conjunct2, THEN conjunct1, THEN mp]) simp
  have 6: "main 0 True [''simplept'', ''abc''] (sconst 0) = Some (0, ?black)"
    by (rule a [THEN conjunct2, THEN conjunct2, THEN conjunct2, THEN conjunct2, THEN conjunct2,
          THEN conjunct2, THEN conjunct2, THEN conjunct2, THEN conjunct1, THEN mp]) (simp add: 1)
  have 7: "main 0 True [''simplept'', ''-8''] (sconst 0) = Some (0, ?black)"
    by (rule b [THEN conjunct2, THEN conjunct2, THEN conjunct2, THEN conjunct2, THEN conjunct2,
          THEN conjunct2, THEN conjunct2, THEN conjunct2, THEN conjunct1, THEN mp]) (simp add: 2)
  have 8: "main 0 True [''simplept'', ''2147483648''] (sconst 0) = Some (0, ?black)"
    by (rule c [THEN conjunct2, THEN conjunct2, THEN conjunct2, THEN conjunct2, THEN conjunct2,
          THEN conjunct2, THEN conjunct2, THEN conjunct2, THEN conjunct1, THEN mp]) (simp add: 3)
  have 9: "main 0 True [''simplept'', ''8''] (sconst 0) = None"
    by (rule d [THEN conjunct2, THEN conjunct2, THEN conjunct2, THEN conjunct2, THEN conjunct2,
          THEN conjunct2, THEN conjunct2, THEN conjunct2, THEN conjunct2, THEN conjunct1, THEN mp])
      (simp add: 4)
  have "main 0 True [''simplept'', ''abc''] (sconst 0)
      = Some (fst (the (main 0 True [''simplept'', ''abc''] (sconst 0))),
              snd (the (main 0 True [''simplept'', ''abc''] (sconst 0))))"
    unfolding 6 by (simp only: option.sel fst_conv snd_conv)
  then have 10: "fst (the (main 0 True [''simplept'', ''abc''] (sconst 0))) = 0"
    by (rule a [THEN conjunct2, THEN conjunct2, THEN conjunct2, THEN conjunct2, THEN conjunct2,
          THEN conjunct2, THEN conjunct2, THEN conjunct2, THEN conjunct2, THEN conjunct2, THEN mp])
  show ?thesis
    by (intro conjI 1 2 3 4 5 6 7 8 9 10)
qed

section \<open>The diffuse sampler\<close>

text \<open>
  Algebra of \<^const>\<open>dot\<close> and \<^const>\<open>cross\<close>, and the local frame: for a unit normal the
  auxiliary axis is never parallel to it, so \<^const>\<open>createLocalCoord\<close> returns three unit
  vectors that are orthogonal to each other, the third being the normal.
\<close>

lemma PI_pos: "0 < PI"
  by (simp add: PI_def)

lemma dot_commute: "dot a b = dot b a"
  by (simp add: dot_def mult.commute)

lemma dot_cross_left: "dot (cross a b) a = 0"
  by (simp add: dot_def cross_def algebra_simps)

lemma dot_cross_right: "dot (cross a b) b = 0"
  by (simp add: dot_def cross_def algebra_simps)

lemma dot_Vec_times_left: "dot (Vec_times a k) b = k * dot a b"
  by (simp add: dot_def Vec_times_def algebra_simps)

lemma dot_Vec_times_right: "dot a (Vec_times b k) = k * dot a b"
  by (simp add: dot_def Vec_times_def algebra_simps)

lemma dot_Vec_plus_left: "dot (Vec_plus a b) c = dot a c + dot b c"
  by (simp add: dot_def Vec_plus_def algebra_simps)

lemma dot_Vec_plus_right: "dot a (Vec_plus b c) = dot a b + dot a c"
  by (simp add: dot_def Vec_plus_def algebra_simps)

lemma cross_lagrange: "dot (cross a b) (cross a b) = dot a a * dot b b - (dot a b)\<^sup>2"
  by (simp add: dot_def cross_def power2_eq_square algebra_simps)

lemma normalizeV_dot: "normalizeV a = Vec_times a (1 / sqrt (dot a a))"
  by (simp add: normalizeV_def dot_def)

lemma normalizeV_unit:
  assumes "0 < dot a a"
  shows "dot (normalizeV a) (normalizeV a) = 1"
proof -
  have "(1 / sqrt (dot a a)) * ((1 / sqrt (dot a a)) * dot a a) = dot a a / (sqrt (dot a a))\<^sup>2"
    by (simp add: power2_eq_square)
  also have "\<dots> = 1" using assms by simp
  finally show ?thesis
    unfolding normalizeV_dot dot_Vec_times_left dot_Vec_times_right .
qed

lemma normalizeV_of_unit:
  assumes "dot a a = 1"
  shows "normalizeV a = a"
  unfolding normalizeV_dot assms by (cases a) (simp add: Vec_times_def)

lemma local_axis_nonzero:
  assumes "dot n n = 1"
  shows "0 < dot (cross (if \<bar>vx n\<bar> > 0.1 then Vec 0 1 0 else Vec 1 0 0) n)
                 (cross (if \<bar>vx n\<bar> > 0.1 then Vec 0 1 0 else Vec 1 0 0) n)"
proof (cases "\<bar>vx n\<bar> > 0.1")
  case True
  then have "vx n \<noteq> 0" by auto
  then have "0 < vx n * vx n" by (auto simp: zero_less_mult_iff)
  moreover have "0 \<le> vz n * vz n" by simp
  ultimately show ?thesis using True
    by (simp add: dot_def cross_def add_nonneg_pos)
next
  case False
  then have "\<bar>vx n\<bar> \<le> 1 / 10" by simp
  then have "\<bar>vx n\<bar> * \<bar>vx n\<bar> \<le> (1 / 10) * (1 / 10)"
    by (intro mult_mono) simp_all
  then have "vx n * vx n \<le> 1 / 100" by simp
  moreover from assms have "vy n * vy n + vz n * vz n = 1 - vx n * vx n"
    by (simp add: dot_def)
  ultimately have "0 < vy n * vy n + vz n * vz n" by linarith
  then show ?thesis using False
    by (simp add: dot_def cross_def add.commute)
qed

lemma createLocalCoord_frame:
  assumes n: "dot n n = 1"
  shows "(let (u, v, w) = createLocalCoord n
          in w = n \<and> dot u u = 1 \<and> dot v v = 1 \<and> dot u v = 0 \<and> dot u w = 0 \<and> dot v w = 0)"
proof -
  define c where "c = cross (if \<bar>vx n\<bar> > 0.1 then Vec 0 1 0 else Vec 1 0 0) n"
  define u where "u = normalizeV c"
  define v where "v = cross n u"
  have C: "createLocalCoord n = (u, v, n)"
    by (simp add: createLocalCoord_def Let_def u_def v_def c_def)
  have cpos: "0 < dot c c" unfolding c_def by (rule local_axis_nonzero [OF n])
  have uu: "dot u u = 1" unfolding u_def by (rule normalizeV_unit [OF cpos])
  have cn: "dot c n = 0" unfolding c_def by (rule dot_cross_right)
  have un: "dot u n = 0"
    unfolding u_def normalizeV_dot dot_Vec_times_left cn by simp
  have nu: "dot n u = 0" using un by (simp add: dot_commute)
  have vv: "dot v v = 1"
    unfolding v_def cross_lagrange n uu nu by simp
  have uv: "dot u v = 0"
    unfolding v_def using dot_cross_right [of n u] by (simp add: dot_commute)
  have vn: "dot v n = 0"
    unfolding v_def by (rule dot_cross_left)
  show ?thesis
    unfolding C by (simp add: uu vv uv un vn)
qed

lemma frame_combination:
  assumes "dot u u = 1" "dot v v = 1" "dot w w = 1" "dot u v = 0" "dot u w = 0" "dot v w = 0"
  shows "dot (Vec_plus (Vec_plus (Vec_times u a) (Vec_times v b)) (Vec_times w c))
             (Vec_plus (Vec_plus (Vec_times u a) (Vec_times v b)) (Vec_times w c))
         = a\<^sup>2 + b\<^sup>2 + c\<^sup>2"
    and "dot w (Vec_plus (Vec_plus (Vec_times u a) (Vec_times v b)) (Vec_times w c)) = c"
proof -
  have vu: "dot v u = 0" and wu: "dot w u = 0" and wv: "dot w v = 0"
    using assms by (simp_all add: dot_commute)
  show "dot (Vec_plus (Vec_plus (Vec_times u a) (Vec_times v b)) (Vec_times w c))
             (Vec_plus (Vec_plus (Vec_times u a) (Vec_times v b)) (Vec_times w c))
         = a\<^sup>2 + b\<^sup>2 + c\<^sup>2"
    unfolding dot_Vec_plus_left dot_Vec_plus_right dot_Vec_times_left dot_Vec_times_right
      assms vu wu wv
    by (simp add: power2_eq_square)
  show "dot w (Vec_plus (Vec_plus (Vec_times u a) (Vec_times v b)) (Vec_times w c)) = c"
    unfolding dot_Vec_plus_right dot_Vec_times_right assms wu wv by simp
qed

lemma disk_point:
  assumes "0 \<le> u1" "u1 < 1"
  shows "(sqrt (1 - sqrt u1 * sqrt u1) * cos phi)\<^sup>2 + (sqrt (1 - sqrt u1 * sqrt u1) * sin phi)\<^sup>2
           + (sqrt u1)\<^sup>2 = 1"
proof -
  have z: "sqrt u1 * sqrt u1 = u1" using assms by simp
  have r: "(sqrt (1 - u1))\<^sup>2 = 1 - u1" using assms by simp
  have "(sqrt (1 - u1) * cos phi)\<^sup>2 + (sqrt (1 - u1) * sin phi)\<^sup>2
      = (sqrt (1 - u1))\<^sup>2 * ((cos phi)\<^sup>2 + (sin phi)\<^sup>2)"
    by (simp only: power_mult_distrib distrib_left)
  also have "\<dots> = 1 - u1" unfolding r by simp
  finally show ?thesis unfolding z using assms by simp
qed

lemma diffuse_sample_value:
  assumes n: "dot n n = 1" and u1: "0 \<le> shd g" "shd g < 1"
  shows "dot (fst (fst (sample (DiffuseBRDF kd) n out g))) (fst (fst (sample (DiffuseBRDF kd) n out g))) = 1"
    and "dot n (fst (fst (sample (DiffuseBRDF kd) n out g))) = sqrt (shd g)"
    and "snd (fst (sample (DiffuseBRDF kd) n out g)) = sqrt (shd g) / PI"
    and "snd (sample (DiffuseBRDF kd) n out g) = stl (stl g)"
proof -
  obtain u v w where C: "createLocalCoord n = (u, v, w)"
    by (cases "createLocalCoord n") auto
  from createLocalCoord_frame [OF n] C
  have w: "w = n" and f: "dot u u = 1" "dot v v = 1" "dot u v = 0" "dot u w = 0" "dot v w = 0"
    by auto
  have ww: "dot w w = 1" using n w by simp
  define z where "z = sqrt (shd g)"
  define x where "x = sqrt (1 - z * z) * cos (2 * PI * shd (stl g))"
  define y where "y = sqrt (1 - z * z) * sin (2 * PI * shd (stl g))"
  define i0 where "i0 = Vec_plus (Vec_plus (Vec_times u x) (Vec_times v y)) (Vec_times w z)"
  have S: "sample (DiffuseBRDF kd) n out g = ((normalizeV i0, dot n (normalizeV i0) / PI), stl (stl g))"
    by (simp add: rng_def Let_def C i0_def x_def y_def z_def)
  have "dot i0 i0 = x\<^sup>2 + y\<^sup>2 + z\<^sup>2"
    unfolding i0_def by (rule frame_combination(1) [OF f(1) f(2) ww f(3) f(4) f(5)])
  also have "\<dots> = 1"
    unfolding x_def y_def z_def by (rule disk_point [OF u1])
  finally have i1: "dot i0 i0 = 1" .
  have N: "normalizeV i0 = i0" by (rule normalizeV_of_unit [OF i1])
  have "dot w i0 = z"
    unfolding i0_def by (rule frame_combination(2) [OF f(1) f(2) ww f(3) f(4) f(5)])
  then have ni: "dot n i0 = sqrt (shd g)" unfolding w z_def .
  show "dot (fst (fst (sample (DiffuseBRDF kd) n out g))) (fst (fst (sample (DiffuseBRDF kd) n out g))) = 1"
    unfolding S N fst_conv by (rule i1)
  show "dot n (fst (fst (sample (DiffuseBRDF kd) n out g))) = sqrt (shd g)"
    unfolding S N fst_conv by (rule ni)
  show "snd (fst (sample (DiffuseBRDF kd) n out g)) = sqrt (shd g) / PI"
    unfolding S N fst_conv snd_conv ni ..
  show "snd (sample (DiffuseBRDF kd) n out g) = stl (stl g)"
    unfolding S snd_conv ..
qed

lemma sqrt_quarter: "sqrt (1 / 4) = 1 / 2"
  by (rule real_sqrt_unique) (simp_all add: power2_eq_square)

text \<open>
  C10. For a unit normal \<open>n\<close> and two variates \<open>u1\<close>, \<open>u2\<close> in \<open>[0, 1)\<close>, the diffuse
  sampler returns a direction \<open>i\<close> of unit length with \<open>n \<cdot> i = sqrt u1\<close>, which is not
  negative, and the density \<open>pdf = (n \<cdot> i) / PI\<close>, which lies between \<open>0\<close> and \<open>1 / PI\<close>.
  When \<open>u1 = 0\<close> the density is \<open>0\<close>, and so is the product \<open>pdf * p\<close> by which
  \<^const>\<open>indirectedRadiance\<close> divides without a test.
\<close>

theorem diffuse_sample_hemisphere:
  assumes "dot n n = 1" and "0 \<le> shd g" and "shd g < 1"
    and "0 \<le> shd (stl g)" and "shd (stl g) < 1"
  shows "(let s = sample (DiffuseBRDF kd) n out g; i = fst (fst s); pdf = snd (fst s)
          in dot i i = 1 \<and> dot n i = sqrt (shd g) \<and> 0 \<le> dot n i
             \<and> pdf = dot n i / PI \<and> 0 \<le> pdf \<and> pdf \<le> 1 / PI
             \<and> (shd g = 0 \<longrightarrow> pdf = 0 \<and> pdf * p = 0))"
proof -
  note v = diffuse_sample_value [OF assms(1) assms(2) assms(3), of kd out]
  have s0: "0 \<le> sqrt (shd g)" using assms(2) by simp
  have s1: "sqrt (shd g) \<le> 1" using assms(3) by simp
  have p0: "0 \<le> sqrt (shd g) / PI" using s0 PI_pos by simp
  have p1: "sqrt (shd g) / PI \<le> 1 / PI" using s1 PI_pos by (simp add: divide_right_mono)
  show ?thesis
    unfolding Let_def v using s0 p0 p1 by simp
qed

text \<open>
  Around the normal \<open>(0, 0, 1)\<close>: the variates \<open>0, 0\<close> give the density \<open>0\<close>, and the
  variates \<open>1/4, 0\<close> give a unit direction with cosine \<open>1/2\<close> and density \<open>1 / 2 / PI\<close>.
\<close>

theorem diffuse_sample_hemisphere_witness:
  "dot (Vec 0 0 1) (Vec 0 0 1) = 1
   \<and> snd (fst (sample (DiffuseBRDF (Vec 0.9 0.9 0.9)) (Vec 0 0 1) (Vec 0 0 1) (sconst 0))) = 0
   \<and> dot (Vec 0 0 1)
        (fst (fst (sample (DiffuseBRDF (Vec 0.9 0.9 0.9)) (Vec 0 0 1) (Vec 0 0 1) (1 / 4 ## sconst 0))))
       = 1 / 2
   \<and> snd (fst (sample (DiffuseBRDF (Vec 0.9 0.9 0.9)) (Vec 0 0 1) (Vec 0 0 1) (1 / 4 ## sconst 0)))
       = 1 / 2 / PI
   \<and> dot (fst (fst (sample (DiffuseBRDF (Vec 0.9 0.9 0.9)) (Vec 0 0 1) (Vec 0 0 1) (1 / 4 ## sconst 0))))
         (fst (fst (sample (DiffuseBRDF (Vec 0.9 0.9 0.9)) (Vec 0 0 1) (Vec 0 0 1) (1 / 4 ## sconst 0))))
       = 1"
proof -
  have n: "dot (Vec 0 0 1) (Vec 0 0 1) = 1"
    by (simp add: dot_def)
  have a0: "0 \<le> shd (sconst (0::real))" and a1: "shd (sconst (0::real)) < 1"
    and a2: "0 \<le> shd (stl (sconst (0::real)))" and a3: "shd (stl (sconst (0::real))) < 1"
    by simp_all
  have b0: "0 \<le> shd (1 / 4 ## sconst (0::real))" and b1: "shd (1 / 4 ## sconst (0::real)) < 1"
    and b2: "0 \<le> shd (stl (1 / 4 ## sconst (0::real)))"
    and b3: "shd (stl (1 / 4 ## sconst (0::real))) < 1"
    by simp_all
  note a = diffuse_sample_hemisphere [OF n a0 a1 a2 a3, of "Vec 0.9 0.9 0.9" "Vec 0 0 1" 1,
      unfolded Let_def]
  note b = diffuse_sample_hemisphere [OF n b0 b1 b2 b3, of "Vec 0.9 0.9 0.9" "Vec 0 0 1" 1,
      unfolded Let_def]
  have z: "shd (sconst (0::real)) = 0" by simp
  from a z have 1: "snd (fst (sample (DiffuseBRDF (Vec 0.9 0.9 0.9)) (Vec 0 0 1) (Vec 0 0 1) (sconst 0))) = 0"
    by blast
  have q: "sqrt (shd (1 / 4 ## sconst (0::real))) = 1 / 2"
    by (simp add: sqrt_quarter)
  from b have 2: "dot (Vec 0 0 1)
        (fst (fst (sample (DiffuseBRDF (Vec 0.9 0.9 0.9)) (Vec 0 0 1) (Vec 0 0 1) (1 / 4 ## sconst 0))))
       = 1 / 2"
    unfolding q by blast
  from b have "snd (fst (sample (DiffuseBRDF (Vec 0.9 0.9 0.9)) (Vec 0 0 1) (Vec 0 0 1) (1 / 4 ## sconst 0)))
       = dot (Vec 0 0 1)
        (fst (fst (sample (DiffuseBRDF (Vec 0.9 0.9 0.9)) (Vec 0 0 1) (Vec 0 0 1) (1 / 4 ## sconst 0)))) / PI"
    by blast
  then have 3: "snd (fst (sample (DiffuseBRDF (Vec 0.9 0.9 0.9)) (Vec 0 0 1) (Vec 0 0 1) (1 / 4 ## sconst 0)))
       = 1 / 2 / PI"
    unfolding 2 .
  from b have 4: "dot (fst (fst (sample (DiffuseBRDF (Vec 0.9 0.9 0.9)) (Vec 0 0 1) (Vec 0 0 1) (1 / 4 ## sconst 0))))
         (fst (fst (sample (DiffuseBRDF (Vec 0.9 0.9 0.9)) (Vec 0 0 1) (Vec 0 0 1) (1 / 4 ## sconst 0))))
       = 1"
    by blast
  show ?thesis
    by (intro conjI n 1 2 3 4)
qed

end
